theory Spec2Isabelle
  imports Complex_Main
begin

text \<open>
  The matchmaking queue, the game engine and the socket handlers of
  \<open>backend/sockets/socketHandlers.js\<close>, with the connection bookkeeping of
  \<open>backend/server.js\<close>, as functions on an explicit state of the process. Every handler
  and every timer callback runs to completion; the values a run obtains from outside (the
  clock, \<open>Math.random()\<close>, \<open>uuidv4()\<close>, the database's answer) are parameters, one
  clock value per run. Logging, the lobby, chat and the online flag in the database are
  left out.
\<close>

section \<open>JavaScript numbers\<close>

text \<open>
  A JavaScript number is an IEEE double: a finite double, which is a real number,
  \<open>NaN\<close> or one of the two infinities. Negation, absolute value, the comparisons and
  \<open>Math.min\<close>/\<open>Math.max\<close> are exact. Addition, multiplication and division of finite
  doubles round, and may overflow; what they return is the runtime's business and not in
  the source, so the three operations on finite operands are parameters of the model
  (\<open>arith\<close>). Only what IEEE fixes for the special values is written out. The two zeros
  of the doubles are not told apart; the source never divides by a computed value.
\<close>

datatype jsnum = Num real | NaN | PosInf | NegInf

record arith =
  fl_add :: "real \<Rightarrow> real \<Rightarrow> jsnum"
  fl_mul :: "real \<Rightarrow> real \<Rightarrow> jsnum"
  fl_div :: "real \<Rightarrow> real \<Rightarrow> jsnum"

fun js_neg :: "jsnum \<Rightarrow> jsnum" where
  "js_neg (Num a) = Num (- a)"
| "js_neg NaN = NaN"
| "js_neg PosInf = NegInf"
| "js_neg NegInf = PosInf"

fun js_add :: "arith \<Rightarrow> jsnum \<Rightarrow> jsnum \<Rightarrow> jsnum" where
  "js_add ar (Num a) (Num b) = fl_add ar a b"
| "js_add ar NaN _ = NaN"
| "js_add ar _ NaN = NaN"
| "js_add ar PosInf NegInf = NaN"
| "js_add ar NegInf PosInf = NaN"
| "js_add ar PosInf _ = PosInf"
| "js_add ar _ PosInf = PosInf"
| "js_add ar NegInf _ = NegInf"
| "js_add ar _ NegInf = NegInf"

text \<open>Subtraction is the addition of the negated operand, rounding included.\<close>

definition js_sub :: "arith \<Rightarrow> jsnum \<Rightarrow> jsnum \<Rightarrow> jsnum" where
  "js_sub ar a b = js_add ar a (js_neg b)"

fun js_mul :: "arith \<Rightarrow> jsnum \<Rightarrow> jsnum \<Rightarrow> jsnum" where
  "js_mul ar (Num a) (Num b) = fl_mul ar a b"
| "js_mul ar NaN _ = NaN"
| "js_mul ar _ NaN = NaN"
| "js_mul ar PosInf (Num b) = (if b = 0 then NaN else if 0 < b then PosInf else NegInf)"
| "js_mul ar NegInf (Num b) = (if b = 0 then NaN else if 0 < b then NegInf else PosInf)"
| "js_mul ar (Num a) PosInf = (if a = 0 then NaN else if 0 < a then PosInf else NegInf)"
| "js_mul ar (Num a) NegInf = (if a = 0 then NaN else if 0 < a then NegInf else PosInf)"
| "js_mul ar PosInf PosInf = PosInf"
| "js_mul ar NegInf NegInf = PosInf"
| "js_mul ar PosInf NegInf = NegInf"
| "js_mul ar NegInf PosInf = NegInf"

fun js_div :: "arith \<Rightarrow> jsnum \<Rightarrow> jsnum \<Rightarrow> jsnum" where
  "js_div ar (Num a) (Num b) = fl_div ar a b"
| "js_div ar NaN _ = NaN"
| "js_div ar _ NaN = NaN"
| "js_div ar (Num a) _ = Num 0"
| "js_div ar PosInf (Num b) = (if 0 \<le> b then PosInf else NegInf)"
| "js_div ar NegInf (Num b) = (if 0 \<le> b then NegInf else PosInf)"
| "js_div ar _ _ = NaN"

fun js_abs :: "jsnum \<Rightarrow> jsnum" where
  "js_abs (Num a) = Num \<bar>a\<bar>"
| "js_abs NaN = NaN"
| "js_abs _ = PosInf"

text \<open>The relational operators: every comparison with \<open>NaN\<close> is false.\<close>

fun js_le :: "jsnum \<Rightarrow> jsnum \<Rightarrow> bool" where
  "js_le (Num a) (Num b) = (a \<le> b)"
| "js_le NaN _ = False"
| "js_le _ NaN = False"
| "js_le NegInf _ = True"
| "js_le _ PosInf = True"
| "js_le _ _ = False"

fun js_lt :: "jsnum \<Rightarrow> jsnum \<Rightarrow> bool" where
  "js_lt (Num a) (Num b) = (a < b)"
| "js_lt NaN _ = False"
| "js_lt _ NaN = False"
| "js_lt PosInf _ = False"
| "js_lt _ NegInf = False"
| "js_lt _ _ = True"

definition js_ge :: "jsnum \<Rightarrow> jsnum \<Rightarrow> bool" where
  "js_ge a b = js_le b a"

definition js_gt :: "jsnum \<Rightarrow> jsnum \<Rightarrow> bool" where
  "js_gt a b = js_lt b a"

text \<open>\<open>Math.max\<close> and \<open>Math.min\<close> of two arguments: \<open>NaN\<close> if either is.\<close>

fun Math_max :: "jsnum \<Rightarrow> jsnum \<Rightarrow> jsnum" where
  "Math_max NaN _ = NaN"
| "Math_max _ NaN = NaN"
| "Math_max a b = (if js_le a b then b else a)"

fun Math_min :: "jsnum \<Rightarrow> jsnum \<Rightarrow> jsnum" where
  "Math_min NaN _ = NaN"
| "Math_min _ NaN = NaN"
| "Math_min a b = (if js_le a b then a else b)"

section \<open>Data model\<close>

text \<open>
  Identifiers: user ids are the integer keys of the \<open>users\<close> table, socket ids, match
  ids (\<open>uuidv4()\<close>) and room names are strings, timer handles are numbered.
  Timestamps are the values of \<open>Date.now()\<close>: whole numbers of milliseconds, on which
  subtraction is exact.
\<close>

type_synonym userId = nat
type_synonym socketId = string
type_synonym matchId = string
type_synonym timerId = nat

record ratingRange =
  range_min :: int
  range_max :: int

text \<open>
  The \<open>player\<close> object built by the \<open>matchmaking:join\<close> handler. Its \<open>socket\<close>
  field is a reference to the socket, which the model identifies by \<open>socketId\<close>.
\<close>

record player =
  userId :: userId
  socketId :: socketId
  username :: string
  displayName :: string
  rating :: int

text \<open>
  A queue entry is the player object spread into a new object with \<open>joinedAt\<close> and
  \<open>ratingRange\<close>; the same objects become the \<open>players\<close> of a match, where the
  \<open>match:ready\<close> handler sets \<open>ready\<close> on them (\<open>False\<close> stands for the absent field).
\<close>

record queueEntry = player +
  joinedAt :: int
  ratingRange :: ratingRange
  ready :: bool

record ball =
  ball_x :: jsnum
  ball_y :: jsnum
  ball_vx :: jsnum
  ball_vy :: jsnum

record paddle =
  paddle_y :: jsnum
  score :: nat

record paddles =
  left :: paddle
  right :: paddle

record gameState =
  ball :: ball
  paddles :: paddles
  lastUpdate :: int

datatype status = Starting | Playing | Paused | Completed

text \<open>
  The match object made by \<open>MatchmakingService.createMatch\<close> and stored in
  \<open>activeMatches\<close>. \<open>m_currentMatch\<close> is the property \<open>currentMatch\<close> that
  \<open>handleMatchFound\<close> assigns on whatever object its lookup returns.
\<close>

record match =
  m_id :: matchId
  roomId :: string
  players :: "queueEntry list"
  status :: status
  createdAt :: int
  gameState :: gameState
  m_currentMatch :: "matchId option"

text \<open>
  \<open>GameEngine.createMatch\<close> stores a shallow copy of the match object, extended with
  \<open>lastTick\<close> and \<open>tickInterval\<close>; \<open>endMatch\<close> adds \<open>winner\<close>. The copy has its own
  \<open>status\<close> field. Its \<open>gameState\<close> and \<open>players\<close> are, in the source, the very objects
  of the original; here each record carries its value. The engine's functions read and
  write the game state through the engine's record only, nothing in the source reads it
  through the object of \<open>activeMatches\<close>, and nothing modelled writes to a player, so the
  second value is never looked at.
\<close>

record engineMatch = match +
  lastTick :: int
  tickInterval :: "timerId option"
  winner :: "queueEntry option"

record socket =
  sock_id :: socketId
  sock_userId :: userId
  sock_username :: string

record connection =
  conn_socket :: socket
  conn_userId :: "userId option"
  currentMatch :: "matchId option"
  conn_joinedAt :: int

text \<open>
  Pending timers. The callbacks of the source are closures; each constructor names one
  of them with the values it captured.
\<close>

datatype timerAction =
    ExpandSearch userId
  | GameTick matchId
  | Countdown matchId string
  | Grace match socketId
  | ServerGrace match

datatype timer = Timeout real timerAction | Interval real timerAction

text \<open>Messages sent to clients, with the way they were addressed.\<close>

datatype target = ToSocket socketId | ToRoom string | ToRoomExcept string socketId | ToAll

datatype message =
    ErrorMsg string
  | MatchmakingQueued nat nat
  | MatchFound matchId string "string option" "int option"
  | MatchCountdown nat
  | PlayerDisconnected string
  | MatchEnded string "string option"
  | OpponentDisconnected matchId
  | ServerStats nat nat nat int

text \<open>
  The state of the process: the two global service instances of
  \<open>socketHandlers.js\<close>, the maps and the (never filled) queue array of the server object
  in \<open>server.js\<close>, the timers of the event loop, the rooms of the socket library and the
  messages emitted so far.
\<close>

record server =
  queue :: "queueEntry list"
  searchTimeouts :: "userId \<rightharpoonup> timerId"
  matches :: "matchId \<rightharpoonup> engineMatch"
  activeConnections :: "socketId \<rightharpoonup> connection"
  activeMatches :: "matchId \<rightharpoonup> match"
  matchmakingQueue :: "queueEntry list"
  timers :: "timerId \<rightharpoonup> timer"
  nextTimer :: timerId
  rooms :: "string \<Rightarrow> socketId set"
  outbox :: "(target \<times> message) list"

section \<open>Event loop primitives\<close>

definition setTimeout :: "timerAction \<Rightarrow> real \<Rightarrow> server \<Rightarrow> timerId \<times> server" where
  "setTimeout act delay s =
     (nextTimer s,
      s\<lparr>timers := (timers s)(nextTimer s \<mapsto> Timeout delay act),
        nextTimer := Suc (nextTimer s)\<rparr>)"

definition setInterval :: "timerAction \<Rightarrow> real \<Rightarrow> server \<Rightarrow> timerId \<times> server" where
  "setInterval act delay s =
     (nextTimer s,
      s\<lparr>timers := (timers s)(nextTimer s \<mapsto> Interval delay act),
        nextTimer := Suc (nextTimer s)\<rparr>)"

definition clearTimer :: "timerId \<Rightarrow> server \<Rightarrow> server" where
  "clearTimer t s = s\<lparr>timers := (timers s)(t := None)\<rparr>"

definition emit :: "target \<Rightarrow> message \<Rightarrow> server \<Rightarrow> server" where
  "emit tg msg s = s\<lparr>outbox := outbox s @ [(tg, msg)]\<rparr>"

definition join_room :: "socketId \<Rightarrow> string \<Rightarrow> server \<Rightarrow> server" where
  "join_room sid room s = s\<lparr>rooms := (rooms s)(room := insert sid (rooms s room))\<rparr>"

section \<open>MatchmakingService\<close>

definition removeFromQueue :: "userId \<Rightarrow> server \<Rightarrow> server" where
  "removeFromQueue uid s =
     (let s1 = s\<lparr>queue := filter (\<lambda>p. userId p \<noteq> uid) (queue s)\<rparr>
      in case searchTimeouts s1 uid of
           None \<Rightarrow> s1
         | Some t \<Rightarrow> (clearTimer t s1)\<lparr>searchTimeouts := (searchTimeouts s1)(uid := None)\<rparr>)"

text \<open>
  \<open>timeInQueue\<close> is a difference of clock values, a whole number: the floor of its quotient
  by 15000 is the integer quotient.
\<close>

definition calculateRatingRange :: "int \<Rightarrow> int \<Rightarrow> ratingRange" where
  "calculateRatingRange r timeInQueue =
     (let baseRange = 150;
          expansionRate = 50;
          expansionInterval = 15000;
          expansions = timeInQueue div expansionInterval;
          currentRange = baseRange + expansions * expansionRate
      in \<lparr>range_min = max 800 (r - currentRange), range_max = min 3000 (r + currentRange)\<rparr>)"

definition setExpandingSearch :: "userId \<Rightarrow> server \<Rightarrow> server" where
  "setExpandingSearch uid s =
     (let (t, s1) = setTimeout (ExpandSearch uid) 15000 s
      in s1\<lparr>searchTimeouts := (searchTimeouts s1)(uid \<mapsto> t)\<rparr>)"

definition MatchmakingService_createMatch ::
    "queueEntry \<Rightarrow> queueEntry \<Rightarrow> matchId \<Rightarrow> int \<Rightarrow> match" where
  "MatchmakingService_createMatch player1 player2 uuid now =
     \<lparr>m_id = uuid,
      roomId = ''game-'' @ uuid,
      players = [player1, player2],
      status = Starting,
      createdAt = now,
      gameState =
        \<lparr>ball = \<lparr>ball_x = Num 400, ball_y = Num 300, ball_vx = Num 5, ball_vy = Num 3\<rparr>,
         paddles = \<lparr>left = \<lparr>paddle_y = Num 250, score = 0\<rparr>,
                    right = \<lparr>paddle_y = Num 250, score = 0\<rparr>\<rparr>,
         lastUpdate = now\<rparr>,
      m_currentMatch = None\<rparr>"

text \<open>
  The scan of \<open>findMatch\<close>: the first entry of the queue, other than the player's own,
  whose rating lies in the player's range or in whose range the player's rating lies.
\<close>

fun firstOpponent :: "queueEntry \<Rightarrow> queueEntry list \<Rightarrow> queueEntry option" where
  "firstOpponent p [] = None"
| "firstOpponent p (opponent # rest) =
     (if userId opponent = userId p then firstOpponent p rest
      else
        let playerInRange = (rating opponent \<ge> range_min (ratingRange p)
                             \<and> rating opponent \<le> range_max (ratingRange p));
            opponentInRange = (rating p \<ge> range_min (ratingRange opponent)
                               \<and> rating p \<le> range_max (ratingRange opponent))
        in if playerInRange \<or> opponentInRange then Some opponent
           else firstOpponent p rest)"

definition findMatch ::
    "queueEntry \<Rightarrow> matchId \<Rightarrow> int \<Rightarrow> server \<Rightarrow> match option \<times> server" where
  "findMatch p uuid now s =
     (case firstOpponent p (queue s) of
        None \<Rightarrow> (None, s)
      | Some opponent \<Rightarrow>
          let s1 = removeFromQueue (userId p) s;
              s2 = removeFromQueue (userId opponent) s1
          in (Some (MatchmakingService_createMatch p opponent uuid now), s2))"

definition addToQueue ::
    "player \<Rightarrow> matchId \<Rightarrow> int \<Rightarrow> server \<Rightarrow> match option \<times> server" where
  "addToQueue p uuid now s =
     (let s1 = removeFromQueue (userId p) s;
          queueEntry = player.extend p
            \<lparr>joinedAt = now, ratingRange = calculateRatingRange (rating p) 0, ready = False\<rparr>;
          s2 = s1\<lparr>queue := queue s1 @ [queueEntry]\<rparr>;
          s3 = setExpandingSearch (userId p) s2
      in findMatch queueEntry uuid now s3)"

section \<open>GameEngine\<close>

text \<open>
  \<open>players[i]\<close>: \<open>None\<close> stands for \<open>undefined\<close>, the value of an index out of range.
\<close>

definition index_opt :: "'a list \<Rightarrow> nat \<Rightarrow> 'a option" where
  "index_opt xs i = (if i < length xs then Some (xs ! i) else None)"

text \<open>\<open>Array.prototype.findIndex\<close>: \<open>None\<close> stands for \<open>-1\<close>.\<close>

fun findIndex :: "('a \<Rightarrow> bool) \<Rightarrow> 'a list \<Rightarrow> nat option" where
  "findIndex P [] = None"
| "findIndex P (x # xs) =
     (if P x then Some 0 else map_option Suc (findIndex P xs))"

text \<open>
  A \<open>TypeError\<close> leaves the function that raises it and every caller up to the event
  loop; the assignments made before it stay. The error value carries the state at the
  moment of the throw.
\<close>

datatype error = TypeError

type_synonym outcome = "(error \<times> server) + server"

definition startGameLoop :: "matchId \<Rightarrow> server \<Rightarrow> server" where
  "startGameLoop mid s =
     (case matches s mid of
        None \<Rightarrow> s
      | Some m \<Rightarrow>
          let (t, s1) = setInterval (GameTick mid) (1000 / 60) s
          in s1\<lparr>matches := (matches s1)(mid \<mapsto> m\<lparr>tickInterval := Some t\<rparr>)\<rparr>)"

definition GameEngine_createMatch :: "match \<Rightarrow> int \<Rightarrow> server \<Rightarrow> server" where
  "GameEngine_createMatch matchData now s =
     startGameLoop (m_id matchData)
       (s\<lparr>matches := (matches s)(m_id matchData \<mapsto>
            match.extend matchData \<lparr>lastTick = now, tickInterval = None, winner = None\<rparr>)\<rparr>)"

text \<open>\<open>handlePaddleCollision\<close> and \<open>resetBall\<close> read and write \<open>match.gameState\<close> only.\<close>

definition handlePaddleCollision :: "arith \<Rightarrow> gameState \<Rightarrow> gameState" where
  "handlePaddleCollision ar g =
     (let b = ball g;
          leftPaddle = left (paddles g);
          rightPaddle = right (paddles g);
          b1 = (if js_le (ball_x b) (Num 20) \<and> js_ge (ball_x b) (Num 10)
                   \<and> js_ge (ball_y b) (js_sub ar (paddle_y leftPaddle) (Num 50))
                   \<and> js_le (ball_y b) (js_add ar (paddle_y leftPaddle) (Num 50))
                then
                  let relativeIntersectY =
                        js_div ar (js_sub ar (paddle_y leftPaddle) (ball_y b)) (Num 50)
                  in b\<lparr>ball_vx := js_abs (ball_vx b),
                       ball_vy := js_mul ar (js_neg relativeIntersectY) (Num 5)\<rparr>
                else b);
          b2 = (if js_ge (ball_x b1) (Num 780) \<and> js_le (ball_x b1) (Num 790)
                   \<and> js_ge (ball_y b1) (js_sub ar (paddle_y rightPaddle) (Num 50))
                   \<and> js_le (ball_y b1) (js_add ar (paddle_y rightPaddle) (Num 50))
                then
                  let relativeIntersectY =
                        js_div ar (js_sub ar (paddle_y rightPaddle) (ball_y b1)) (Num 50)
                  in b1\<lparr>ball_vx := js_neg (js_abs (ball_vx b1)),
                        ball_vy := js_mul ar (js_neg relativeIntersectY) (Num 5)\<rparr>
                else b1)
      in g\<lparr>ball := b2\<rparr>)"

text \<open>The two values of \<open>Math.random()\<close> that \<open>resetBall\<close> draws are parameters.\<close>

definition resetBall :: "arith \<Rightarrow> real \<Rightarrow> real \<Rightarrow> gameState \<Rightarrow> gameState" where
  "resetBall ar rnd1 rnd2 g =
     g\<lparr>ball := (ball g)\<lparr>ball_x := Num 400, ball_y := Num 300,
                          ball_vx := (if rnd1 > 0.5 then Num 5 else Num (- 5)),
                          ball_vy := js_mul ar (js_sub ar (Num rnd2) (Num 0.5)) (Num 6)\<rparr>\<rparr>"

text \<open>
  \<open>endMatch\<close> ends with a log line that reads \<open>match.winner.username\<close>: with no
  player at the winning index it throws, after the assignments.
\<close>

definition GameEngine_endMatch :: "matchId \<Rightarrow> server \<Rightarrow> outcome" where
  "GameEngine_endMatch mid s =
     (case matches s mid of
        None \<Rightarrow> Inr s
      | Some m \<Rightarrow>
          let m1 = m\<lparr>status := Completed\<rparr>;
              s1 = (case tickInterval m1 of None \<Rightarrow> s | Some t \<Rightarrow> clearTimer t s);
              leftScore = score (left (paddles (gameState m1)));
              rightScore = score (right (paddles (gameState m1)));
              m2 = m1\<lparr>winner := (if leftScore > rightScore then index_opt (players m1) 0
                                    else index_opt (players m1) 1)\<rparr>;
              s2 = s1\<lparr>matches := (matches s1)(mid \<mapsto> m2)\<rparr>
          in (case winner m2 of None \<Rightarrow> Inl (TypeError, s2) | Some w \<Rightarrow> Inr s2))"

text \<open>
  \<open>updateGameState\<close>: the tick. \<open>now\<close> is the value of \<open>Date.now()\<close>; the random
  values are those a scoring tick hands to \<open>resetBall\<close>.
\<close>

definition updateGameState ::
    "arith \<Rightarrow> matchId \<Rightarrow> int \<Rightarrow> real \<Rightarrow> real \<Rightarrow> server \<Rightarrow> outcome" where
  "updateGameState ar mid now rnd1 rnd2 s =
     (case matches s mid of
        None \<Rightarrow> Inr s
      | Some m \<Rightarrow>
          if status m \<noteq> Playing then Inr s
          else
            let deltaTime = js_div ar (Num (real_of_int (now - lastTick m))) (Num 1000);
                b = ball (gameState m);
                b1 = b\<lparr>ball_x := js_add ar (ball_x b) (js_mul ar (js_mul ar (ball_vx b) deltaTime) (Num 60))\<rparr>;
                b2 = b1\<lparr>ball_y := js_add ar (ball_y b1) (js_mul ar (js_mul ar (ball_vy b1) deltaTime) (Num 60))\<rparr>;
                b3 = (if js_le (ball_y b2) (Num 10) \<or> js_ge (ball_y b2) (Num 590)
                      then b2\<lparr>ball_vy := js_neg (ball_vy b2),
                              ball_y := Math_max (Num 10) (Math_min (Num 590) (ball_y b2))\<rparr>
                      else b2);
                g1 = handlePaddleCollision ar ((gameState m)\<lparr>ball := b3\<rparr>);
                ps = paddles g1;
                g2 = (if js_le (ball_x (ball g1)) (Num 0)
                      then resetBall ar rnd1 rnd2
                             (g1\<lparr>paddles := ps\<lparr>right := (right ps)\<lparr>score := score (right ps) + 1\<rparr>\<rparr>\<rparr>)
                      else if js_ge (ball_x (ball g1)) (Num 800)
                      then resetBall ar rnd1 rnd2
                             (g1\<lparr>paddles := ps\<lparr>left := (left ps)\<lparr>score := score (left ps) + 1\<rparr>\<rparr>\<rparr>)
                      else g1);
                s1 = s\<lparr>matches := (matches s)(mid \<mapsto> m\<lparr>lastTick := now, gameState := g2\<rparr>)\<rparr>;
                r = (if score (left (paddles g2)) \<ge> 11 \<or> score (right (paddles g2)) \<ge> 11
                     then GameEngine_endMatch mid s1 else Inr s1)
            in (case r of
                  Inl e \<Rightarrow> Inl e
                | Inr s2 \<Rightarrow>
                    (case matches s2 mid of
                       None \<Rightarrow> Inr s2
                     | Some m2 \<Rightarrow>
                         Inr (s2\<lparr>matches := (matches s2)(mid \<mapsto>
                               m2\<lparr>gameState := (gameState m2)\<lparr>lastUpdate := now\<rparr>\<rparr>)\<rparr>))))"

text \<open>
  The payload of a \<open>game:input\<close> message is taken to be an object; its \<open>paddleY\<close>
  property is a number or a value of any other type. In \<open>updatePlayerInput\<close> the clamp
  works on the number: a value of another type has been turned away by \<open>validateInput\<close>
  before.
\<close>

datatype jsval = JNumber jsnum | JOther

record input =
  paddleY :: jsval

definition validateInput :: "input \<Rightarrow> bool" where
  "validateInput inp =
     (case paddleY inp of
        JOther \<Rightarrow> False
      | JNumber v \<Rightarrow> if js_lt v (Num 50) \<or> js_gt v (Num 550) then False else True)"

definition updatePlayerInput :: "matchId \<Rightarrow> userId \<Rightarrow> input \<Rightarrow> server \<Rightarrow> bool \<times> server" where
  "updatePlayerInput mid playerId inp s =
     (case matches s mid of
        None \<Rightarrow> (False, s)
      | Some m \<Rightarrow>
          if status m \<noteq> Playing then (False, s)
          else
            (case findIndex (\<lambda>p. userId p = playerId) (players m) of
               None \<Rightarrow> (False, s)
             | Some playerIndex \<Rightarrow>
                 if \<not> validateInput inp then (False, s)
                 else
                   (case paddleY inp of
                      JOther \<Rightarrow> (False, s)
                    | JNumber v \<Rightarrow>
                        let y' = Math_max (Num 50) (Math_min (Num 550) v);
                            g = gameState m;
                            ps = paddles g;
                            ps' = (if playerIndex = 0
                                   then ps\<lparr>left := (left ps)\<lparr>paddle_y := y'\<rparr>\<rparr>
                                   else ps\<lparr>right := (right ps)\<lparr>paddle_y := y'\<rparr>\<rparr>)
                        in (True, s\<lparr>matches := (matches s)(mid \<mapsto>
                                      m\<lparr>gameState := g\<lparr>paddles := ps'\<rparr>\<rparr>)\<rparr>))))"

definition getMatchState :: "matchId \<Rightarrow> server \<Rightarrow> gameState option" where
  "getMatchState mid s = map_option gameState (matches s mid)"

definition removeMatch :: "matchId \<Rightarrow> server \<Rightarrow> server" where
  "removeMatch mid s =
     (let s1 = (case matches s mid of
                  None \<Rightarrow> s
                | Some m \<Rightarrow> (case tickInterval m of None \<Rightarrow> s | Some t \<Rightarrow> clearTimer t s))
      in s1\<lparr>matches := (matches s1)(mid := None)\<rparr>)"

section \<open>Socket handlers\<close>

text \<open>
  A new connection (\<open>setupWebSocket\<close> in \<open>server.js\<close>, then the head of
  \<open>setupSocketEvents\<close>): the connection record is stored under the socket's id with no
  current match, and the authenticated user id is copied into it.
\<close>

definition onConnection :: "socket \<Rightarrow> int \<Rightarrow> server \<Rightarrow> server" where
  "onConnection sock now s =
     (let s1 = s\<lparr>activeConnections := (activeConnections s)(sock_id sock \<mapsto>
                  \<lparr>conn_socket = sock, conn_userId = None, currentMatch = None,
                   conn_joinedAt = now\<rparr>)\<rparr>
      in case activeConnections s1 (sock_id sock) of
           None \<Rightarrow> s1
         | Some c \<Rightarrow> s1\<lparr>activeConnections := (activeConnections s1)(sock_id sock \<mapsto>
                        c\<lparr>conn_userId := Some (sock_userId sock)\<rparr>)\<rparr>)"

text \<open>
  The body of the \<open>forEach\<close> of \<open>handleMatchFound\<close>, for one player. The lookup is
  made in \<open>activeMatches\<close>, with the player's socket id as key.
\<close>

definition matchFound_player :: "match \<Rightarrow> queueEntry \<Rightarrow> server \<Rightarrow> server" where
  "matchFound_player m p s =
     (let s1 = (case activeMatches s (socketId p) of
                  None \<Rightarrow> s
                | Some c \<Rightarrow> s\<lparr>activeMatches := (activeMatches s)(socketId p \<mapsto>
                               c\<lparr>m_currentMatch := Some (m_id m)\<rparr>)\<rparr>);
          s2 = join_room (socketId p) (roomId m) s1;
          opponent = find (\<lambda>q. userId q \<noteq> userId p) (players m)
      in emit (ToSocket (socketId p))
           (MatchFound (m_id m) (roomId m) (map_option username opponent)
              (map_option rating opponent)) s2)"

definition handleMatchFound :: "match \<Rightarrow> int \<Rightarrow> server \<Rightarrow> server" where
  "handleMatchFound m now s =
     (let s1 = s\<lparr>activeMatches := (activeMatches s)(m_id m \<mapsto> m)\<rparr>;
          s2 = GameEngine_createMatch m now s1;
          s3 = foldl (\<lambda>st p. matchFound_player m p st) s2 (players m);
          (t, s4) = setTimeout (Countdown (m_id m) (roomId m)) 2000 s3
      in s4)"

text \<open>The countdown callback scheduled by \<open>handleMatchFound\<close>.\<close>

definition countdownTimeout :: "matchId \<Rightarrow> string \<Rightarrow> server \<Rightarrow> server" where
  "countdownTimeout mid room s =
     (case activeMatches s mid of
        None \<Rightarrow> s
      | Some activeMatch \<Rightarrow>
          if status activeMatch = Starting then emit (ToRoom room) (MatchCountdown 3) s
          else s)"

text \<open>
  The \<open>matchmaking:join\<close> handler, from the point where the database has answered:
  the query failed (the \<open>catch\<close> branch), returned no row, or returned the user's row.
\<close>

record user =
  user_id :: userId
  user_username :: string
  user_display_name :: string
  user_rating :: int

datatype dbResult = QueryFailed | NoRow | Row user

definition matchmaking_join :: "socket \<Rightarrow> dbResult \<Rightarrow> matchId \<Rightarrow> int \<Rightarrow> server \<Rightarrow> server" where
  "matchmaking_join sock db uuid now s =
     (case db of
        QueryFailed \<Rightarrow> emit (ToSocket (sock_id sock)) (ErrorMsg ''Failed to join matchmaking'') s
      | NoRow \<Rightarrow> emit (ToSocket (sock_id sock)) (ErrorMsg ''User not found'') s
      | Row u \<Rightarrow>
          let p = \<lparr>userId = user_id u, socketId = sock_id sock, username = user_username u,
                   displayName = user_display_name u, rating = user_rating u\<rparr>;
              (found, s1) = addToQueue p uuid now s
          in (case found of
                Some m \<Rightarrow> handleMatchFound m now s1
              | None \<Rightarrow>
                  emit (ToSocket (sock_id sock))
                    (MatchmakingQueued (length (queue s1)) (max 30 (length (queue s1) * 15))) s1))"

text \<open>
  The \<open>game:input\<close> handler. \<open>!connection?.currentMatch\<close> holds for a missing record, for
  \<open>null\<close> and for the empty string.
\<close>

definition game_input :: "socket \<Rightarrow> input \<Rightarrow> server \<Rightarrow> server" where
  "game_input sock inp s =
     (case Option.bind (activeConnections s (sock_id sock)) currentMatch of
        None \<Rightarrow> emit (ToSocket (sock_id sock)) (ErrorMsg ''Not in a match'') s
      | Some mid \<Rightarrow>
          if mid = [] then emit (ToSocket (sock_id sock)) (ErrorMsg ''Not in a match'') s
          else
            let (success, s1) = updatePlayerInput mid (sock_userId sock) inp s
            in if \<not> success
               then emit (ToSocket (sock_id sock)) (ErrorMsg ''Invalid game input'') s1
               else s1)"

text \<open>
  \<open>handlePlayerDisconnect\<close>. Its \<open>match\<close> argument is the object the \<open>disconnect\<close>
  handler read from \<open>activeMatches\<close>; \<open>k\<close> is the key it was read under. The timer's
  closure keeps the object, of which it reads \<open>id\<close>, \<open>roomId\<close> and \<open>players\<close>.
\<close>

definition handlePlayerDisconnect :: "matchId \<Rightarrow> socket \<Rightarrow> server \<Rightarrow> server" where
  "handlePlayerDisconnect k disconnectedSocket s =
     (case activeMatches s k of
        None \<Rightarrow> s
      | Some m \<Rightarrow>
          let s1 = emit (ToRoomExcept (roomId m) (sock_id disconnectedSocket))
                     (PlayerDisconnected (sock_username disconnectedSocket)) s;
              m1 = m\<lparr>status := Paused\<rparr>;
              s2 = s1\<lparr>activeMatches := (activeMatches s1)(k \<mapsto> m1)\<rparr>;
              (t, s3) = setTimeout (Grace m1 (sock_id disconnectedSocket)) 30000 s2
          in s3)"

text \<open>The callback of that timer.\<close>

definition graceTimeout :: "match \<Rightarrow> socketId \<Rightarrow> server \<Rightarrow> outcome" where
  "graceTimeout m disconnectedId s =
     (case activeMatches s (m_id m) of
        None \<Rightarrow> Inr s
      | Some cur \<Rightarrow>
          if status cur = Paused then
            (case GameEngine_endMatch (m_id m) s of
               Inl e \<Rightarrow> Inl e
             | Inr s1 \<Rightarrow>
                 let s2 = removeMatch (m_id m) s1;
                     s3 = s2\<lparr>activeMatches := (activeMatches s2)(m_id m := None)\<rparr>
                 in Inr (emit (ToRoom (roomId m))
                          (MatchEnded ''player_disconnect''
                             (map_option username
                                (find (\<lambda>p. socketId p \<noteq> disconnectedId) (players m)))) s3))
          else Inr s)"

section \<open>Connection bookkeeping of the server object\<close>

text \<open>
  \<open>broadcastServerStats\<close>: the sizes of the two maps and of the queue array, with the
  time, to every connected socket.
\<close>

definition broadcastServerStats :: "int \<Rightarrow> server \<Rightarrow> server" where
  "broadcastServerStats now s =
     emit ToAll
       (ServerStats (card (dom (activeConnections s))) (card (dom (activeMatches s)))
          (length (matchmakingQueue s)) now) s"

text \<open>\<open>endMatch\<close> of \<open>server.js\<close>; the reason is only logged.\<close>

definition Server_endMatch :: "matchId \<Rightarrow> int \<Rightarrow> server \<Rightarrow> server" where
  "Server_endMatch mid now s =
     (case activeMatches s mid of
        None \<Rightarrow> s
      | Some m \<Rightarrow>
          let s1 = foldl (\<lambda>st p.
                      case activeConnections st (socketId p) of
                        None \<Rightarrow> st
                      | Some c \<Rightarrow> st\<lparr>activeConnections := (activeConnections st)(socketId p \<mapsto>
                                     c\<lparr>currentMatch := None\<rparr>)\<rparr>) s (players m);
              s2 = s1\<lparr>activeMatches := (activeMatches s1)(mid := None)\<rparr>
          in broadcastServerStats now s2)"

definition handleMatchDisconnection :: "match \<Rightarrow> socketId \<Rightarrow> server \<Rightarrow> server" where
  "handleMatchDisconnection m disconnectedSocketId s =
     (let s1 = foldl (\<lambda>st p.
                  if socketId p \<noteq> disconnectedSocketId then
                    (case activeConnections st (socketId p) of
                       None \<Rightarrow> st
                     | Some c \<Rightarrow> emit (ToSocket (sock_id (conn_socket c)))
                                  (OpponentDisconnected (m_id m)) st)
                  else st) s (players m);
          (t, s2) = setTimeout (ServerGrace m) 30000 s1
      in s2)"

text \<open>The callback of that timer.\<close>

definition serverGraceTimeout :: "match \<Rightarrow> int \<Rightarrow> server \<Rightarrow> server" where
  "serverGraceTimeout m now s =
     (if activeMatches s (m_id m) \<noteq> None then Server_endMatch (m_id m) now s else s)"

definition handleDisconnection :: "socketId \<Rightarrow> int \<Rightarrow> server \<Rightarrow> server" where
  "handleDisconnection sid now s =
     (case activeConnections s sid of
        None \<Rightarrow> s
      | Some c \<Rightarrow>
          let s1 = s\<lparr>matchmakingQueue := filter (\<lambda>p. socketId p \<noteq> sid) (matchmakingQueue s)\<rparr>;
              s2 = (case currentMatch c of
                      None \<Rightarrow> s1
                    | Some mid \<Rightarrow>
                        if mid = [] then s1
                        else (case activeMatches s1 mid of
                                None \<Rightarrow> s1
                              | Some m \<Rightarrow> handleMatchDisconnection m sid s1));
              s3 = s2\<lparr>activeConnections := (activeConnections s2)(sid := None)\<rparr>
          in broadcastServerStats now s3)"

section \<open>The disconnect of a socket\<close>

text \<open>
  A socket has two \<open>disconnect\<close> listeners, called in the order of their registration:
  the one of \<open>setupSocketEvents\<close>, then the one of \<open>setupWebSocket\<close>, which runs
  \<open>handleDisconnection\<close>. The first is an \<open>async\<close> function: it removes the user from the
  queue and, for a user id that is not falsy, awaits the database, so that its remainder
  (\<open>disconnect_tail\<close>) runs only after the second listener has returned. With a falsy user
  id nothing is awaited and the whole first listener runs before the second. The
  database call is taken to succeed.
\<close>

definition disconnect_head :: "socket \<Rightarrow> server \<Rightarrow> server" where
  "disconnect_head sock s = removeFromQueue (sock_userId sock) s"

definition disconnect_tail :: "socket \<Rightarrow> server \<Rightarrow> server" where
  "disconnect_tail sock s =
     (case Option.bind (activeConnections s (sock_id sock)) currentMatch of
        None \<Rightarrow> s
      | Some mid \<Rightarrow>
          if mid = [] then s
          else (case activeMatches s mid of
                  None \<Rightarrow> s
                | Some m \<Rightarrow> handlePlayerDisconnect mid sock s))"

definition onDisconnect :: "socket \<Rightarrow> int \<Rightarrow> server \<Rightarrow> server" where
  "onDisconnect sock now s =
     (if sock_userId sock \<noteq> 0
      then disconnect_tail sock (handleDisconnection (sock_id sock) now (disconnect_head sock s))
      else handleDisconnection (sock_id sock) now (disconnect_tail sock (disconnect_head sock s)))"

section \<open>Timer callbacks\<close>

text \<open>
  The callback of \<open>setExpandingSearch\<close>. The entry found is updated in place; a match
  that \<open>findMatch\<close> returns here is dropped by the source.
\<close>

fun updateFirst :: "('a \<Rightarrow> bool) \<Rightarrow> ('a \<Rightarrow> 'a) \<Rightarrow> 'a list \<Rightarrow> 'a list" where
  "updateFirst P f [] = []"
| "updateFirst P f (x # xs) = (if P x then f x # xs else x # updateFirst P f xs)"

definition expandSearch :: "userId \<Rightarrow> matchId \<Rightarrow> int \<Rightarrow> server \<Rightarrow> server" where
  "expandSearch uid uuid now s =
     (case find (\<lambda>p. userId p = uid) (queue s) of
        None \<Rightarrow> s
      | Some p \<Rightarrow>
          let timeInQueue = now - joinedAt p;
              rr = calculateRatingRange (rating p) timeInQueue;
              p' = p\<lparr>ratingRange := rr\<rparr>;
              s1 = s\<lparr>queue := updateFirst (\<lambda>q. userId q = uid) (\<lambda>q. q\<lparr>ratingRange := rr\<rparr>) (queue s)\<rparr>;
              (found, s2) = findMatch p' uuid now s1;
              (t, s3) = setTimeout (ExpandSearch uid) 15000 s2
          in s3\<lparr>searchTimeouts := (searchTimeouts s3)(uid \<mapsto> t)\<rparr>)"

text \<open>
  One turn of the event loop for a pending timer: a timeout is removed when it fires, an
  interval stays. The clock value, the random draws and the fresh uuid a callback may
  use are parameters.
\<close>

definition runCallback ::
    "arith \<Rightarrow> timerAction \<Rightarrow> matchId \<Rightarrow> int \<Rightarrow> real \<Rightarrow> real \<Rightarrow> server \<Rightarrow> outcome" where
  "runCallback ar act uuid now rnd1 rnd2 s =
     (case act of
        ExpandSearch uid \<Rightarrow> Inr (expandSearch uid uuid now s)
      | GameTick mid \<Rightarrow> updateGameState ar mid now rnd1 rnd2 s
      | Countdown mid room \<Rightarrow> Inr (countdownTimeout mid room s)
      | Grace m sid \<Rightarrow> graceTimeout m sid s
      | ServerGrace m \<Rightarrow> Inr (serverGraceTimeout m now s))"

definition fireTimer ::
    "arith \<Rightarrow> timerId \<Rightarrow> matchId \<Rightarrow> int \<Rightarrow> real \<Rightarrow> real \<Rightarrow> server \<Rightarrow> outcome" where
  "fireTimer ar t uuid now rnd1 rnd2 s =
     (case timers s t of
        None \<Rightarrow> Inr s
      | Some (Timeout d act) \<Rightarrow> runCallback ar act uuid now rnd1 rnd2 (clearTimer t s)
      | Some (Interval d act) \<Rightarrow> runCallback ar act uuid now rnd1 rnd2 s)"

text \<open>
  The sockets a message reaches: \<open>socket.emit\<close> reaches the socket itself,
  \<open>io.to(room).emit\<close> every member of the room, \<open>socket.to(room).emit\<close> every member
  but the sender, \<open>io.emit\<close> every connected socket.
\<close>

definition receivers :: "server \<Rightarrow> target \<Rightarrow> socketId set" where
  "receivers s tg =
     (case tg of
        ToSocket sid \<Rightarrow> {sid}
      | ToRoom room \<Rightarrow> rooms s room
      | ToRoomExcept room sid \<Rightarrow> rooms s room - {sid}
      | ToAll \<Rightarrow> dom (activeConnections s))"

definition isError :: "target \<times> message \<Rightarrow> bool" where
  "isError tm = (case snd tm of ErrorMsg txt \<Rightarrow> True | _ \<Rightarrow> False)"

text \<open>The state of a freshly started process.\<close>

definition initial :: server where
  "initial =
     \<lparr>queue = [], searchTimeouts = Map.empty, matches = Map.empty,
      activeConnections = Map.empty, activeMatches = Map.empty, matchmakingQueue = [],
      timers = Map.empty, nextTimer = 0, rooms = (\<lambda>_. {}), outbox = []\<rparr>"

section \<open>Example data\<close>

text \<open>
  The queue entry that \<open>addToQueue\<close> builds for a player who joins at time \<open>now\<close>, two
  players with their sockets, and the state after the first of them has joined the
  empty queue.
\<close>

definition entryOf :: "player \<Rightarrow> int \<Rightarrow> queueEntry" where
  "entryOf p now = player.extend p
     \<lparr>joinedAt = now, ratingRange = calculateRatingRange (rating p) 0, ready = False\<rparr>"

definition alice :: player where
  "alice = \<lparr>userId = 1, socketId = ''sA'', username = ''alice'', displayName = ''Alice'',
             rating = 1200\<rparr>"

definition bob :: player where
  "bob = \<lparr>userId = 2, socketId = ''sB'', username = ''bob'', displayName = ''Bob'',
           rating = 1300\<rparr>"

definition aliceSocket :: socket where
  "aliceSocket = \<lparr>sock_id = ''sA'', sock_userId = 1, sock_username = ''alice''\<rparr>"

definition bobSocket :: socket where
  "bobSocket = \<lparr>sock_id = ''sB'', sock_userId = 2, sock_username = ''bob''\<rparr>"

definition aliceQueued :: server where
  "aliceQueued = snd (addToQueue alice ''m0'' 0 initial)"

definition aliceRow :: user where
  "aliceRow = \<lparr>user_id = 1, user_username = ''alice'', user_display_name = ''Alice'',
                user_rating = 1200\<rparr>"

definition bobRow :: user where
  "bobRow = \<lparr>user_id = 2, user_username = ''bob'', user_display_name = ''Bob'',
              user_rating = 1300\<rparr>"

text \<open>
  Both connect; alice joins the queue at time 0 and is queued, bob joins at time 1000
  and is paired with her: \<open>matchedAB\<close> is the state when bob's \<open>matchmaking:join\<close>
  handler has returned, \<open>matchAB\<close> the match object it made.
\<close>

definition connectedAB :: server where
  "connectedAB = onConnection bobSocket 0 (onConnection aliceSocket 0 initial)"

definition aliceJoined :: server where
  "aliceJoined = matchmaking_join aliceSocket (Row aliceRow) ''m0'' 0 connectedAB"

definition matchedAB :: server where
  "matchedAB = matchmaking_join bobSocket (Row bobRow) ''m1'' 1000 aliceJoined"

definition matchAB :: match where
  "matchAB = MatchmakingService_createMatch (entryOf bob 1000) (entryOf alice 0) ''m1'' 1000"

text \<open>
  The state \<open>matchedAB\<close> with the engine's copy of the match at a given status and
  score and with a given ball: the states on which the tick and the input path work.
\<close>

definition engineAB :: "status \<Rightarrow> nat \<Rightarrow> nat \<Rightarrow> ball \<Rightarrow> engineMatch" where
  "engineAB st l r b =
     match.extend
       (matchAB\<lparr>status := st,
                gameState := \<lparr>ball = b,
                               paddles = \<lparr>left = \<lparr>paddle_y = Num 250, score = l\<rparr>,
                                          right = \<lparr>paddle_y = Num 250, score = r\<rparr>\<rparr>,
                               lastUpdate = 1000\<rparr>\<rparr>)
       \<lparr>lastTick = 1000, tickInterval = Some 2, winner = None\<rparr>"

definition stateAB :: "status \<Rightarrow> nat \<Rightarrow> nat \<Rightarrow> ball \<Rightarrow> server" where
  "stateAB st l r b = matchedAB\<lparr>matches := (matches matchedAB)(''m1'' \<mapsto> engineAB st l r b)\<rparr>"

text \<open>
  From \<open>matchedAB\<close>: alice's socket is lost and \<open>handlePlayerDisconnect\<close> runs for the
  match (\<open>pausedAB\<close>); five seconds after the match was made she is back on a new socket
  with the same user id (\<open>reconnectedAB\<close>). Or, instead, she asks to join the queue again
  while the match is in \<open>activeMatches\<close> (\<open>rejoinedAB\<close>).
\<close>

definition pausedAB :: server where
  "pausedAB = handlePlayerDisconnect ''m1'' aliceSocket matchedAB"

definition aliceSocket2 :: socket where
  "aliceSocket2 = \<lparr>sock_id = ''sA2'', sock_userId = 1, sock_username = ''alice''\<rparr>"

definition reconnectedAB :: server where
  "reconnectedAB = onConnection aliceSocket2 6000 pausedAB"

definition rejoinedAB :: server where
  "rejoinedAB = matchmaking_join aliceSocket (Row aliceRow) ''m2'' 2000 matchedAB"

text \<open>
  She asks once more while her entry of the first request is still queued
  (\<open>rejoinedTwiceAB\<close>). Or, from \<open>matchedAB\<close>, her socket is lost and both \<open>disconnect\<close>
  listeners run (\<open>disconnectedAB\<close>).
\<close>

definition rejoinedTwiceAB :: server where
  "rejoinedTwiceAB = matchmaking_join aliceSocket (Row aliceRow) ''m3'' 3000 rejoinedAB"

definition disconnectedAB :: server where
  "disconnectedAB = onDisconnect aliceSocket 5000 matchedAB"

text \<open>
  Arithmetic without rounding. An IEEE operation returns the exact result whenever that
  result is a double; the examples below apply these operations to such operands only
  (small whole numbers and eighths).
\<close>

definition exactArith :: arith where
  "exactArith =
     \<lparr>fl_add = (\<lambda>a b. Num (a + b)),
      fl_mul = (\<lambda>a b. Num (a * b)),
      fl_div = (\<lambda>a b. if b = 0 then (if a = 0 then NaN else if 0 < a then PosInf else NegInf)
                        else Num (a / b))\<rparr>"

definition kickoff :: ball where
  "kickoff = \<lparr>ball_x = Num 400, ball_y = Num 300, ball_vx = Num 5, ball_vy = Num 3\<rparr>"

text \<open>The state an operation leaves behind, whether it returned or threw.\<close>

definition stateOf :: "outcome \<Rightarrow> server" where
  "stateOf r = (case r of Inl (e, s) \<Rightarrow> s | Inr s \<Rightarrow> s)"

section \<open>The example run\<close>

lemmas op_defs = matchmaking_join_def addToQueue_def findMatch_def removeFromQueue_def
  setExpandingSearch_def setTimeout_def setInterval_def clearTimer_def emit_def join_room_def
  calculateRatingRange_def MatchmakingService_createMatch_def handleMatchFound_def
  matchFound_player_def GameEngine_createMatch_def startGameLoop_def onConnection_def
  initial_def Let_def player.defs match.defs

lemmas ex_defs = alice_def bob_def aliceSocket_def bobSocket_def aliceRow_def bobRow_def
  matchAB_def entryOf_def

lemma aliceJoined_facts:
  "queue aliceJoined = [entryOf alice 0]"
  "searchTimeouts aliceJoined = [1 \<mapsto> 0]"
  "timers aliceJoined = [0 \<mapsto> Timeout 15000 (ExpandSearch 1)]"
  "nextTimer aliceJoined = 1"
  "matches aliceJoined = Map.empty"
  "activeMatches aliceJoined = Map.empty"
  "activeConnections aliceJoined = activeConnections connectedAB"
  "outbox aliceJoined = [(ToSocket ''sA'', MatchmakingQueued 1 30)]"
  "rooms aliceJoined = (\<lambda>_. {})"
  "matchmakingQueue aliceJoined = []"
  by (simp_all add: op_defs ex_defs aliceJoined_def connectedAB_def)


lemma matchedAB_facts:
  "queue matchedAB = []"
  "activeMatches matchedAB = [''m1'' \<mapsto> matchAB]"
  "matches matchedAB = [''m1'' \<mapsto> match.extend matchAB
       \<lparr>lastTick = 1000, tickInterval = Some 2, winner = None\<rparr>]"
  "timers matchedAB 2 = Some (Interval (1000 / 60) (GameTick ''m1''))"
  "timers matchedAB 3 = Some (Timeout 2000 (Countdown ''m1'' ''game-m1''))"
  "nextTimer matchedAB = 4"
  "activeConnections matchedAB = activeConnections connectedAB"
  "rooms matchedAB ''game-m1'' = {''sA'', ''sB''}"
  "outbox matchedAB =
     [(ToSocket ''sA'', MatchmakingQueued 1 30),
      (ToSocket ''sB'', MatchFound ''m1'' ''game-m1'' (Some ''alice'') (Some 1200)),
      (ToSocket ''sA'', MatchFound ''m1'' ''game-m1'' (Some ''bob'') (Some 1300))]"
  "searchTimeouts matchedAB 1 = None"
  "matchmakingQueue matchedAB = []"
  by (simp_all add: matchedAB_def op_defs ex_defs aliceJoined_facts eval_nat_numeral)

lemma connectedAB_facts:
  "activeConnections connectedAB ''sA'' =
     Some \<lparr>conn_socket = aliceSocket, conn_userId = Some 1, currentMatch = None, conn_joinedAt = 0\<rparr>"
  "activeConnections connectedAB ''sB'' =
     Some \<lparr>conn_socket = bobSocket, conn_userId = Some 2, currentMatch = None, conn_joinedAt = 0\<rparr>"
  "dom (activeConnections connectedAB) = {''sA'', ''sB''}"
  by (auto simp: connectedAB_def onConnection_def aliceSocket_def bobSocket_def initial_def)

section \<open>Matchmaking\<close>

lemma queue_removeFromQueue:
  "queue (removeFromQueue uid s) = filter (\<lambda>p. userId p \<noteq> uid) (queue s)"
  by (simp add: removeFromQueue_def clearTimer_def Let_def split: option.splits)

lemma queue_setExpandingSearch: "queue (setExpandingSearch uid s) = queue s"
  by (simp add: setExpandingSearch_def setTimeout_def)

lemma aliceQueued_queue: "queue aliceQueued = [entryOf alice 0]"
  by (simp add: aliceQueued_def addToQueue_def Let_def findMatch_def queue_setExpandingSearch
      queue_removeFromQueue initial_def entryOf_def player.defs)

lemma addToQueue_pairs:
  assumes q: "queue s = [e1]" and ne: "userId e1 \<noteq> userId p"
    and r1: "800 \<le> rating e1" "rating e1 \<le> 3000"
    and r2: "800 \<le> rating p" "rating p \<le> 3000"
    and d: "\<bar>rating e1 - rating p\<bar> \<le> 150"
  shows "fst (addToQueue p uuid now s) =
           Some (MatchmakingService_createMatch (entryOf p now) e1 uuid now)
         \<and> queue (snd (addToQueue p uuid now s)) = []"
proof -
  define e2 where "e2 = entryOf p now"
  define s3 where "s3 = setExpandingSearch (userId p)
      ((removeFromQueue (userId p) s)\<lparr>queue := queue (removeFromQueue (userId p) s) @ [e2]\<rparr>)"
  have add: "addToQueue p uuid now s = findMatch e2 uuid now s3"
    by (simp add: addToQueue_def Let_def e2_def s3_def entryOf_def)
  have uid2: "userId e2 = userId p" and rt2: "rating e2 = rating p"
    by (simp_all add: e2_def entryOf_def player.defs)
  have rng: "ratingRange e2 = \<lparr>range_min = max 800 (rating p - 150),
                                range_max = min 3000 (rating p + 150)\<rparr>"
    by (simp add: e2_def entryOf_def player.defs calculateRatingRange_def)
  have q3: "queue s3 = [e1, e2]"
    using q ne by (simp add: s3_def queue_setExpandingSearch queue_removeFromQueue)
  have inr: "rating e1 \<ge> range_min (ratingRange e2) \<and> rating e1 \<le> range_max (ratingRange e2)"
    using r1 r2 d by (simp add: rng abs_le_iff)
  have opp: "firstOpponent e2 (queue s3) = Some e1"
    using ne inr by (simp add: q3 uid2)
  have fm: "findMatch e2 uuid now s3 =
      (Some (MatchmakingService_createMatch e2 e1 uuid now),
       removeFromQueue (userId e1) (removeFromQueue (userId e2) s3))"
    by (simp add: findMatch_def opp Let_def)
  show ?thesis
    using ne by (simp add: add fm queue_removeFromQueue q3 uid2 e2_def[symmetric])
qed

text \<open>
  C8. One player \<open>e1\<close> is queued, and a second player \<open>p\<close> (another user) joins; both
  ratings lie in \<open>[800, 3000]\<close> and differ by at most 150. Then \<open>addToQueue\<close> returns at
  once a match: its players are the entry made for \<open>p\<close> (her user and rating, joined
  \<open>now\<close>, with the initial range of 150 around her rating cut to \<open>[800, 3000]\<close>) and \<open>e1\<close>,
  in this order; it carries the fresh id and is \<open>Starting\<close>; and the queue is empty
  afterwards. Nothing is assumed about the range \<open>e1\<close> has reached.
\<close>

theorem enqueue_within_150_matches:
  assumes q: "queue s = [e1]" and ne: "userId e1 \<noteq> userId p"
    and r1: "800 \<le> rating e1" "rating e1 \<le> 3000"
    and r2: "800 \<le> rating p" "rating p \<le> 3000"
    and d: "\<bar>rating e1 - rating p\<bar> \<le> 150"
  shows "\<exists>m. fst (addToQueue p uuid now s) = Some m
           \<and> players m = [entryOf p now, e1]
           \<and> userId (entryOf p now) = userId p
           \<and> rating (entryOf p now) = rating p
           \<and> joinedAt (entryOf p now) = now
           \<and> ratingRange (entryOf p now) = \<lparr>range_min = max 800 (rating p - 150),
                                               range_max = min 3000 (rating p + 150)\<rparr>
           \<and> m_id m = uuid \<and> status m = Starting
           \<and> m = MatchmakingService_createMatch (entryOf p now) e1 uuid now
           \<and> queue (snd (addToQueue p uuid now s)) = []"
proof -
  let ?m = "MatchmakingService_createMatch (entryOf p now) e1 uuid now"
  have a: "fst (addToQueue p uuid now s) = Some ?m"
    and b: "queue (snd (addToQueue p uuid now s)) = []"
    using addToQueue_pairs [OF q ne r1 r2 d] by simp_all
  have c: "players ?m = [entryOf p now, e1]" "m_id ?m = uuid" "status ?m = Starting"
    by (simp_all add: MatchmakingService_createMatch_def)
  have e: "userId (entryOf p now) = userId p" "rating (entryOf p now) = rating p"
    "joinedAt (entryOf p now) = now"
    "ratingRange (entryOf p now) = \<lparr>range_min = max 800 (rating p - 150),
                                     range_max = min 3000 (rating p + 150)\<rparr>"
    by (simp_all add: entryOf_def player.defs calculateRatingRange_def)
  from a c e b show ?thesis
    by (intro exI [of _ ?m] conjI refl)
qed

theorem enqueue_within_150_matches_witness:
  "map_option players (fst (addToQueue bob ''m1'' 1000 aliceQueued))
     = Some [entryOf bob 1000, entryOf alice 0]
   \<and> map_option (map userId \<circ> players) (fst (addToQueue bob ''m1'' 1000 aliceQueued))
       = Some [2, 1]
   \<and> ratingRange (entryOf bob 1000) = \<lparr>range_min = 1150, range_max = 1450\<rparr>
   \<and> map_option m_id (fst (addToQueue bob ''m1'' 1000 aliceQueued)) = Some ''m1''
   \<and> map_option status (fst (addToQueue bob ''m1'' 1000 aliceQueued)) = Some Starting
   \<and> queue (snd (addToQueue bob ''m1'' 1000 aliceQueued)) = []"
proof -
  have h: "userId (entryOf alice 0) \<noteq> userId bob" "800 \<le> rating (entryOf alice 0)"
    "rating (entryOf alice 0) \<le> 3000" "800 \<le> rating bob" "rating bob \<le> 3000"
    "\<bar>rating (entryOf alice 0) - rating bob\<bar> \<le> 150"
    by (simp_all add: entryOf_def alice_def bob_def player.defs)
  from enqueue_within_150_matches [OF aliceQueued_queue h, of "''m1''" 1000]
  obtain m where a: "fst (addToQueue bob ''m1'' 1000 aliceQueued) = Some m"
    and b: "players m = [entryOf bob 1000, entryOf alice 0]"
    and c: "ratingRange (entryOf bob 1000) = \<lparr>range_min = max 800 (rating bob - 150),
                                               range_max = min 3000 (rating bob + 150)\<rparr>"
    and e: "m_id m = ''m1''" "status m = Starting"
    and f: "queue (snd (addToQueue bob ''m1'' 1000 aliceQueued)) = []"
    by (elim exE conjE) (rule that; assumption)
  have 1: "map_option players (fst (addToQueue bob ''m1'' 1000 aliceQueued))
     = Some [entryOf bob 1000, entryOf alice 0]"
    by (simp add: a b)
  have "map userId (players m) = [2, 1]"
    by (simp add: b entryOf_def alice_def bob_def player.defs)
  then have 2: "map_option (map userId \<circ> players) (fst (addToQueue bob ''m1'' 1000 aliceQueued))
       = Some [2, 1]"
    by (simp add: a)
  have 3: "ratingRange (entryOf bob 1000) = \<lparr>range_min = 1150, range_max = 1450\<rparr>"
    using c by (simp add: bob_def)
  have 4: "map_option m_id (fst (addToQueue bob ''m1'' 1000 aliceQueued)) = Some ''m1''"
    and 5: "map_option status (fst (addToQueue bob ''m1'' 1000 aliceQueued)) = Some Starting"
    by (simp_all add: a e)
  from 1 2 3 4 5 f show ?thesis
    by (intro conjI)
qed

section \<open>The tick and the end of a match\<close>

lemma handlePaddleCollision_keeps:
  "ball_x (ball (handlePaddleCollision ar g)) = ball_x (ball g)"
  "ball_y (ball (handlePaddleCollision ar g)) = ball_y (ball g)"
  "paddles (handlePaddleCollision ar g) = paddles g"
  "lastUpdate (handlePaddleCollision ar g) = lastUpdate g"
  by (simp_all add: handlePaddleCollision_def Let_def)

lemma resetBall_keeps:
  "ball_x (ball (resetBall ar rnd1 rnd2 g)) = Num 400"
  "ball_y (ball (resetBall ar rnd1 rnd2 g)) = Num 300"
  "paddles (resetBall ar rnd1 rnd2 g) = paddles g"
  "lastUpdate (resetBall ar rnd1 rnd2 g) = lastUpdate g"
  by (simp_all add: resetBall_def)

lemma stateOf_simps [simp]: "stateOf (Inr s) = s" "stateOf (Inl (e, s)) = s"
  by (simp_all add: stateOf_def)

lemma updateGameState_playing:
  assumes m: "matches s mid = Some m" and pl: "status m = Playing"
    and dt: "deltaTime = js_div ar (Num (real_of_int (now - lastTick m))) (Num 1000)"
    and b1: "b1 = (ball (gameState m))\<lparr>ball_x :=
               js_add ar (ball_x (ball (gameState m)))
                 (js_mul ar (js_mul ar (ball_vx (ball (gameState m))) deltaTime) (Num 60))\<rparr>"
    and b2: "b2 = b1\<lparr>ball_y := js_add ar (ball_y b1) (js_mul ar (js_mul ar (ball_vy b1) deltaTime) (Num 60))\<rparr>"
    and b3: "b3 = (if js_le (ball_y b2) (Num 10) \<or> js_ge (ball_y b2) (Num 590)
                   then b2\<lparr>ball_vy := js_neg (ball_vy b2),
                           ball_y := Math_max (Num 10) (Math_min (Num 590) (ball_y b2))\<rparr>
                   else b2)"
    and g1: "g1 = handlePaddleCollision ar ((gameState m)\<lparr>ball := b3\<rparr>)"
    and g2: "g2 = (if js_le (ball_x (ball g1)) (Num 0)
                   then resetBall ar rnd1 rnd2
                          (g1\<lparr>paddles := (paddles g1)\<lparr>right := (right (paddles g1))
                                \<lparr>score := score (right (paddles g1)) + 1\<rparr>\<rparr>\<rparr>)
                   else if js_ge (ball_x (ball g1)) (Num 800)
                   then resetBall ar rnd1 rnd2
                          (g1\<lparr>paddles := (paddles g1)\<lparr>left := (left (paddles g1))
                                \<lparr>score := score (left (paddles g1)) + 1\<rparr>\<rparr>\<rparr>)
                   else g1)"
    and s1: "s1 = s\<lparr>matches := (matches s)(mid \<mapsto> m\<lparr>lastTick := now, gameState := g2\<rparr>)\<rparr>"
  shows "updateGameState ar mid now rnd1 rnd2 s =
     (case (if score (left (paddles g2)) \<ge> 11 \<or> score (right (paddles g2)) \<ge> 11
            then GameEngine_endMatch mid s1 else Inr s1) of
        Inl e \<Rightarrow> Inl e
      | Inr s2 \<Rightarrow>
          (case matches s2 mid of
             None \<Rightarrow> Inr s2
           | Some m2 \<Rightarrow>
               Inr (s2\<lparr>matches := (matches s2)(mid \<mapsto>
                     m2\<lparr>gameState := (gameState m2)\<lparr>lastUpdate := now\<rparr>\<rparr>)\<rparr>)))"
  unfolding s1 g2 g1 b3 b2 b1 dt updateGameState_def Let_def
  by (simp only: m pl option.case simp_thms if_False)


lemma GameEngine_endMatch_some:
  assumes "matches s mid = Some m"
    and "w = (if score (left (paddles (gameState m))) > score (right (paddles (gameState m)))
              then index_opt (players m) 0 else index_opt (players m) 1)"
    and "s2 = (case tickInterval m of None \<Rightarrow> s | Some t \<Rightarrow> clearTimer t s)
                \<lparr>matches := (matches s)(mid \<mapsto> m\<lparr>status := Completed, winner := w\<rparr>)\<rparr>"
  shows "GameEngine_endMatch mid s = (case w of None \<Rightarrow> Inl (TypeError, s2) | Some p \<Rightarrow> Inr s2)"
  using assms
  by (simp add: GameEngine_endMatch_def Let_def clearTimer_def split: option.splits)

lemma updateGameState_result:
  assumes m: "matches s mid = Some m" and pl: "status m = Playing"
    and dt: "deltaTime = js_div ar (Num (real_of_int (now - lastTick m))) (Num 1000)"
    and b1: "b1 = (ball (gameState m))\<lparr>ball_x :=
               js_add ar (ball_x (ball (gameState m)))
                 (js_mul ar (js_mul ar (ball_vx (ball (gameState m))) deltaTime) (Num 60))\<rparr>"
    and b2: "b2 = b1\<lparr>ball_y := js_add ar (ball_y b1) (js_mul ar (js_mul ar (ball_vy b1) deltaTime) (Num 60))\<rparr>"
    and b3: "b3 = (if js_le (ball_y b2) (Num 10) \<or> js_ge (ball_y b2) (Num 590)
                   then b2\<lparr>ball_vy := js_neg (ball_vy b2),
                           ball_y := Math_max (Num 10) (Math_min (Num 590) (ball_y b2))\<rparr>
                   else b2)"
    and g1: "g1 = handlePaddleCollision ar ((gameState m)\<lparr>ball := b3\<rparr>)"
    and g2: "g2 = (if js_le (ball_x (ball g1)) (Num 0)
                   then resetBall ar rnd1 rnd2
                          (g1\<lparr>paddles := (paddles g1)\<lparr>right := (right (paddles g1))
                                \<lparr>score := score (right (paddles g1)) + 1\<rparr>\<rparr>\<rparr>)
                   else if js_ge (ball_x (ball g1)) (Num 800)
                   then resetBall ar rnd1 rnd2
                          (g1\<lparr>paddles := (paddles g1)\<lparr>left := (left (paddles g1))
                                \<lparr>score := score (left (paddles g1)) + 1\<rparr>\<rparr>\<rparr>)
                   else g1)"
    and over: "over = (score (left (paddles g2)) \<ge> 11 \<or> score (right (paddles g2)) \<ge> 11)"
    and w: "w = (if score (left (paddles g2)) > score (right (paddles g2))
                 then index_opt (players m) 0 else index_opt (players m) 1)"
  shows "\<exists>m'. matches (stateOf (updateGameState ar mid now rnd1 rnd2 s)) mid = Some m'
           \<and> ball (gameState m') = ball g2 \<and> paddles (gameState m') = paddles g2
           \<and> players m' = players m
           \<and> status m' = (if over then Completed else Playing)
           \<and> winner m' = (if over then w else winner m)
           \<and> ((\<not> over \<or> w \<noteq> None) = (\<exists>s'. updateGameState ar mid now rnd1 rnd2 s = Inr s'))"
proof -
  define m1 where "m1 = m\<lparr>lastTick := now, gameState := g2\<rparr>"
  define s1 where "s1 = s\<lparr>matches := (matches s)(mid \<mapsto> m1)\<rparr>"
  have u: "updateGameState ar mid now rnd1 rnd2 s =
     (case (if over then GameEngine_endMatch mid s1 else Inr s1) of
        Inl e \<Rightarrow> Inl e
      | Inr s2 \<Rightarrow>
          (case matches s2 mid of
             None \<Rightarrow> Inr s2
           | Some m2 \<Rightarrow>
               Inr (s2\<lparr>matches := (matches s2)(mid \<mapsto>
                     m2\<lparr>gameState := (gameState m2)\<lparr>lastUpdate := now\<rparr>\<rparr>)\<rparr>)))"
    unfolding over
    by (rule updateGameState_playing [OF m pl dt b1 b2 b3 g1 g2]) (simp add: s1_def m1_def)
  have ms1: "matches s1 mid = Some m1" by (simp add: s1_def)
  show ?thesis
  proof (cases over)
    case False
    then show ?thesis
      by (simp add: u ms1) (simp add: m1_def pl)
  next
    case True
    define s2 where "s2 = (case tickInterval m1 of None \<Rightarrow> s1 | Some t \<Rightarrow> clearTimer t s1)
                \<lparr>matches := (matches s1)(mid \<mapsto> m1\<lparr>status := Completed, winner := w\<rparr>)\<rparr>"
    have w1: "w = (if score (left (paddles (gameState m1))) > score (right (paddles (gameState m1)))
              then index_opt (players m1) 0 else index_opt (players m1) 1)"
      by (simp add: w m1_def)
    have e: "GameEngine_endMatch mid s1 = (case w of None \<Rightarrow> Inl (TypeError, s2) | Some p \<Rightarrow> Inr s2)"
      by (rule GameEngine_endMatch_some [OF ms1 w1 s2_def])
    have ms2: "matches s2 mid = Some (m1\<lparr>status := Completed, winner := w\<rparr>)"
      by (simp add: s2_def)
    show ?thesis
    proof (cases w)
      case None
      then show ?thesis using True by (simp add: u e ms2) (simp add: m1_def)
    next
      case (Some p)
      then show ?thesis using True by (simp add: u e ms2) (simp add: m1_def)
    qed
  qed
qed

lemma engineAB_simps [simp]:
  "status (engineAB st l r b) = st"
  "players (engineAB st l r b) = [entryOf bob 1000, entryOf alice 0]"
  "gameState (engineAB st l r b) =
     \<lparr>ball = b, paddles = \<lparr>left = \<lparr>paddle_y = Num 250, score = l\<rparr>,
                           right = \<lparr>paddle_y = Num 250, score = r\<rparr>\<rparr>, lastUpdate = 1000\<rparr>"
  "lastTick (engineAB st l r b) = 1000"
  "tickInterval (engineAB st l r b) = Some 2"
  "winner (engineAB st l r b) = None"
  by (simp_all add: engineAB_def matchAB_def MatchmakingService_createMatch_def match.defs)

lemma stateAB_match [simp]: "matches (stateAB st l r b) ''m1'' = Some (engineAB st l r b)"
  by (simp add: stateAB_def)

lemma index_opt_two [simp]: "index_opt [p0, p1] 0 = Some p0" "index_opt [p0, p1] (Suc 0) = Some p1"
  by (simp_all add: index_opt_def)

lemma updateGameState_scores:
  assumes m: "matches s mid = Some m" and pl: "status m = Playing"
    and two: "players m = [p0, p1]"
    and l: "l = score (left (paddles (gameState m)))" "l < 11"
    and r: "r = score (right (paddles (gameState m)))" "r < 11"
    and nx: "nx = js_add ar (ball_x (ball (gameState m)))
                   (js_mul ar (js_mul ar (ball_vx (ball (gameState m)))
                      (js_div ar (Num (real_of_int (now - lastTick m))) (Num 1000))) (Num 60))"
    and r': "r' = (if js_le nx (Num 0) then r + 1 else r)"
    and l': "l' = (if \<not> js_le nx (Num 0) \<and> js_ge nx (Num 800) then l + 1 else l)"
  shows "\<exists>s' m'. updateGameState ar mid now rnd1 rnd2 s = Inr s' \<and> matches s' mid = Some m'
           \<and> score (left (paddles (gameState m'))) = l'
           \<and> score (right (paddles (gameState m'))) = r'
           \<and> status m' = (if l' = 11 \<or> r' = 11 then Completed else Playing)
           \<and> winner m' = (if l' = 11 then Some p0 else if r' = 11 then Some p1 else winner m)"
proof -
  define deltaTime where "deltaTime = js_div ar (Num (real_of_int (now - lastTick m))) (Num 1000)"
  define b1 where "b1 = (ball (gameState m))\<lparr>ball_x :=
               js_add ar (ball_x (ball (gameState m)))
                 (js_mul ar (js_mul ar (ball_vx (ball (gameState m))) deltaTime) (Num 60))\<rparr>"
  define b2 where "b2 = b1\<lparr>ball_y := js_add ar (ball_y b1) (js_mul ar (js_mul ar (ball_vy b1) deltaTime) (Num 60))\<rparr>"
  define b3 where "b3 = (if js_le (ball_y b2) (Num 10) \<or> js_ge (ball_y b2) (Num 590)
                   then b2\<lparr>ball_vy := js_neg (ball_vy b2),
                           ball_y := Math_max (Num 10) (Math_min (Num 590) (ball_y b2))\<rparr>
                   else b2)"
  define g1 where "g1 = handlePaddleCollision ar ((gameState m)\<lparr>ball := b3\<rparr>)"
  define g2 where "g2 = (if js_le (ball_x (ball g1)) (Num 0)
                   then resetBall ar rnd1 rnd2
                          (g1\<lparr>paddles := (paddles g1)\<lparr>right := (right (paddles g1))
                                \<lparr>score := score (right (paddles g1)) + 1\<rparr>\<rparr>\<rparr>)
                   else if js_ge (ball_x (ball g1)) (Num 800)
                   then resetBall ar rnd1 rnd2
                          (g1\<lparr>paddles := (paddles g1)\<lparr>left := (left (paddles g1))
                                \<lparr>score := score (left (paddles g1)) + 1\<rparr>\<rparr>\<rparr>)
                   else g1)"
  define over where "over = (score (left (paddles g2)) \<ge> 11 \<or> score (right (paddles g2)) \<ge> 11)"
  define w where "w = (if score (left (paddles g2)) > score (right (paddles g2))
                 then index_opt (players m) 0 else index_opt (players m) 1)"
  have x1: "ball_x (ball g1) = nx"
    by (simp add: g1_def handlePaddleCollision_keeps b3_def b2_def b1_def nx deltaTime_def)
  have p1: "paddles g1 = paddles (gameState m)"
    by (simp add: g1_def handlePaddleCollision_keeps)
  have sl: "score (left (paddles g2)) = l'" and sr: "score (right (paddles g2)) = r'"
    by (simp_all add: g2_def x1 p1 resetBall_keeps l' r' l r)
  have ov: "over = (l' = 11 \<or> r' = 11)"
  proof -
    have "l' \<le> 11" using l(2) by (simp add: l')
    moreover have "r' \<le> 11" using r(2) by (simp add: r')
    ultimately show ?thesis by (simp add: over_def sl sr)
  qed
  have wv: "w = (if l' > r' then Some p0 else Some p1)"
    by (simp add: w_def sl sr two)
  from updateGameState_result [OF m pl deltaTime_def b1_def b2_def b3_def g1_def g2_def over_def w_def]
  obtain m' where res: "matches (stateOf (updateGameState ar mid now rnd1 rnd2 s)) mid = Some m'"
      "paddles (gameState m') = paddles g2" "status m' = (if over then Completed else Playing)"
      "winner m' = (if over then w else winner m)"
      "(\<not> over \<or> w \<noteq> None) = (\<exists>s'. updateGameState ar mid now rnd1 rnd2 s = Inr s')"
    by (elim exE conjE) (rule that; assumption)
  have "w \<noteq> None" by (simp add: wv)
  with res(5) have "\<exists>s'. updateGameState ar mid now rnd1 rnd2 s = Inr s'" by simp
  then obtain s' where s': "updateGameState ar mid now rnd1 rnd2 s = Inr s'" ..
  have win: "(if over then w else winner m) =
             (if l' = 11 then Some p0 else if r' = 11 then Some p1 else winner m)"
  proof (cases "l' = 11")
    case True
    have "r' < 11" using True l(2) r(2) by (simp add: l' r' split: if_splits)
    with True show ?thesis by (simp add: ov wv)
  next
    case False
    show ?thesis
    proof (cases "r' = 11")
      case True
      have "l' \<le> 11" using l(2) by (simp add: l')
      with False have "l' < 11" by simp
      with True show ?thesis by (simp add: ov wv)
    next
      case r11: False
      with False show ?thesis by (simp add: ov)
    qed
  qed
  have wm: "winner m' = (if l' = 11 then Some p0 else if r' = 11 then Some p1 else winner m)"
    by (simp only: res(4) win)
  have st: "status m' = (if l' = 11 \<or> r' = 11 then Completed else Playing)"
    by (simp only: res(3) ov)
  have "matches s' mid = Some m'"
    using res(1) by (simp add: s')
  then show ?thesis
    using s' wm st by (simp add: res(2) sl sr)
qed

text \<open>
  C7. A tick on a \<open>Playing\<close> match with two players whose scores \<open>l\<close> and \<open>r\<close> are both
  below 11. \<open>nx\<close> is the ball's \<open>x\<close> after the advance, as the runtime computes it. The
  tick returns. The right score has grown by one if \<open>nx \<le> 0\<close>, the left score if not and
  \<open>nx \<ge> 800\<close>, and nothing else has changed them. The match is \<open>Completed\<close> exactly when
  one of the scores after the tick is 11, with the first player recorded as winner when
  it is the left score and the second when it is the right score; otherwise (10-10
  included) the match stays \<open>Playing\<close> and the winner field is as before. Status and
  winner are those of the engine's record of the match.
\<close>

theorem tick_score_11_completes:
  assumes m: "matches s mid = Some m" and pl: "status m = Playing"
    and two: "players m = [p0, p1]"
    and l: "l = score (left (paddles (gameState m)))" "l < 11"
    and r: "r = score (right (paddles (gameState m)))" "r < 11"
    and nx: "nx = js_add ar (ball_x (ball (gameState m)))
                   (js_mul ar (js_mul ar (ball_vx (ball (gameState m)))
                      (js_div ar (Num (real_of_int (now - lastTick m))) (Num 1000))) (Num 60))"
  shows "\<exists>s' m'. updateGameState ar mid now rnd1 rnd2 s = Inr s' \<and> matches s' mid = Some m'
           \<and> score (right (paddles (gameState m'))) = (if js_le nx (Num 0) then r + 1 else r)
           \<and> score (left (paddles (gameState m')))
               = (if \<not> js_le nx (Num 0) \<and> js_ge nx (Num 800) then l + 1 else l)
           \<and> status m' = (if score (left (paddles (gameState m'))) = 11
                              \<or> score (right (paddles (gameState m'))) = 11
                           then Completed else Playing)
           \<and> winner m' = (if score (left (paddles (gameState m'))) = 11 then Some p0
                           else if score (right (paddles (gameState m'))) = 11 then Some p1
                           else winner m)"
proof -
  define r' where "r' = (if js_le nx (Num 0) then r + 1 else r)"
  define l' where "l' = (if \<not> js_le nx (Num 0) \<and> js_ge nx (Num 800) then l + 1 else l)"
  from updateGameState_scores [OF m pl two l r nx r'_def l'_def,
         where ?rnd1.0 = rnd1 and ?rnd2.0 = rnd2]
  obtain s' m' where u: "updateGameState ar mid now rnd1 rnd2 s = Inr s'"
    and ms: "matches s' mid = Some m'"
    and sl: "score (left (paddles (gameState m'))) = l'"
    and sr: "score (right (paddles (gameState m'))) = r'"
    and st: "status m' = (if l' = 11 \<or> r' = 11 then Completed else Playing)"
    and w: "winner m' = (if l' = 11 then Some p0 else if r' = 11 then Some p1 else winner m)"
    by (elim exE conjE) (rule that; assumption)
  have sr2: "score (right (paddles (gameState m'))) = (if js_le nx (Num 0) then r + 1 else r)"
    by (simp only: sr r'_def)
  have sl2: "score (left (paddles (gameState m')))
               = (if \<not> js_le nx (Num 0) \<and> js_ge nx (Num 800) then l + 1 else l)"
    by (simp only: sl l'_def)
  have st2: "status m' = (if score (left (paddles (gameState m'))) = 11
                              \<or> score (right (paddles (gameState m'))) = 11
                           then Completed else Playing)"
    by (simp only: sl sr st)
  have w2: "winner m' = (if score (left (paddles (gameState m'))) = 11 then Some p0
                           else if score (right (paddles (gameState m'))) = 11 then Some p1
                           else winner m)"
    by (simp only: sl sr w)
  from u ms sr2 sl2 st2 w2 show ?thesis
    by (intro exI conjI)
qed

theorem tick_score_11_completes_witness:
  "(\<exists>s' m'. updateGameState exactArith ''m1'' 2000 0 0
        (stateAB Playing 10 10 \<lparr>ball_x = Num 700, ball_y = Num 300, ball_vx = Num 5, ball_vy = Num 3\<rparr>)
        = Inr s' \<and> matches s' ''m1'' = Some m'
      \<and> score (left (paddles (gameState m'))) = 11
      \<and> score (right (paddles (gameState m'))) = 10
      \<and> status m' = Completed \<and> winner m' = Some (entryOf bob 1000))
   \<and> (\<exists>s' m'. updateGameState exactArith ''m1'' 1125 0 0 (stateAB Playing 10 10 kickoff)
        = Inr s' \<and> matches s' ''m1'' = Some m'
      \<and> score (left (paddles (gameState m'))) = 10
      \<and> score (right (paddles (gameState m'))) = 10
      \<and> status m' = Playing \<and> winner m' = None)"
proof -
  let ?b = "\<lparr>ball_x = Num 700, ball_y = Num 300, ball_vx = Num 5, ball_vy = Num 3\<rparr>"
  have l1: "10 = score (left (paddles (gameState (engineAB Playing 10 10 b))))"
    and r1: "10 = score (right (paddles (gameState (engineAB Playing 10 10 b))))" for b
    by simp_all
  have lt: "(10::nat) < 11" by simp
  have a: "Num 1000 = js_add exactArith (ball_x (ball (gameState (engineAB Playing 10 10 ?b))))
             (js_mul exactArith (js_mul exactArith (ball_vx (ball (gameState (engineAB Playing 10 10 ?b))))
                (js_div exactArith (Num (real_of_int (2000 - lastTick (engineAB Playing 10 10 ?b))))
                   (Num 1000))) (Num 60))"
    by (simp add: exactArith_def)
  have b: "Num (875 / 2) = js_add exactArith (ball_x (ball (gameState (engineAB Playing 10 10 kickoff))))
             (js_mul exactArith (js_mul exactArith (ball_vx (ball (gameState (engineAB Playing 10 10 kickoff))))
                (js_div exactArith (Num (real_of_int (1125 - lastTick (engineAB Playing 10 10 kickoff))))
                   (Num 1000))) (Num 60))"
    by (simp add: exactArith_def kickoff_def)
  have 1: "\<exists>s' m'. updateGameState exactArith ''m1'' 2000 0 0 (stateAB Playing 10 10 ?b)
        = Inr s' \<and> matches s' ''m1'' = Some m'
      \<and> score (left (paddles (gameState m'))) = 11
      \<and> score (right (paddles (gameState m'))) = 10
      \<and> status m' = Completed \<and> winner m' = Some (entryOf bob 1000)"
  proof -
    from tick_score_11_completes [OF stateAB_match engineAB_simps(1) engineAB_simps(2)
           l1 lt r1 lt a, where ?rnd1.0 = 0 and ?rnd2.0 = 0]
    obtain s' m' where u: "updateGameState exactArith ''m1'' 2000 0 0 (stateAB Playing 10 10 ?b) = Inr s'"
      and ms: "matches s' ''m1'' = Some m'"
      and sr: "score (right (paddles (gameState m'))) = (if js_le (Num 1000) (Num 0) then 10 + 1 else 10)"
      and sl: "score (left (paddles (gameState m')))
               = (if \<not> js_le (Num 1000) (Num 0) \<and> js_ge (Num 1000) (Num 800) then 10 + 1 else 10)"
      and st: "status m' = (if score (left (paddles (gameState m'))) = 11
                              \<or> score (right (paddles (gameState m'))) = 11
                           then Completed else Playing)"
      and w: "winner m' = (if score (left (paddles (gameState m'))) = 11 then Some (entryOf bob 1000)
                           else if score (right (paddles (gameState m'))) = 11 then Some (entryOf alice 0)
                           else winner (engineAB Playing 10 10 ?b))"
      by (elim exE conjE) (rule that; assumption)
    have sl': "score (left (paddles (gameState m'))) = 11"
      and sr': "score (right (paddles (gameState m'))) = 10"
      by (simp_all add: sl sr js_ge_def)
    have st': "status m' = Completed" and w': "winner m' = Some (entryOf bob 1000)"
      by (simp_all add: st w sl' sr')
    from u ms sl' sr' st' w' show ?thesis
      by (intro exI conjI)
  qed
  have 2: "\<exists>s' m'. updateGameState exactArith ''m1'' 1125 0 0 (stateAB Playing 10 10 kickoff)
        = Inr s' \<and> matches s' ''m1'' = Some m'
      \<and> score (left (paddles (gameState m'))) = 10
      \<and> score (right (paddles (gameState m'))) = 10
      \<and> status m' = Playing \<and> winner m' = None"
  proof -
    from tick_score_11_completes [OF stateAB_match engineAB_simps(1) engineAB_simps(2)
           l1 lt r1 lt b, where ?rnd1.0 = 0 and ?rnd2.0 = 0]
    obtain s' m' where u: "updateGameState exactArith ''m1'' 1125 0 0 (stateAB Playing 10 10 kickoff) = Inr s'"
      and ms: "matches s' ''m1'' = Some m'"
      and sr: "score (right (paddles (gameState m'))) = (if js_le (Num (875 / 2)) (Num 0) then 10 + 1 else 10)"
      and sl: "score (left (paddles (gameState m')))
               = (if \<not> js_le (Num (875 / 2)) (Num 0) \<and> js_ge (Num (875 / 2)) (Num 800) then 10 + 1 else 10)"
      and st: "status m' = (if score (left (paddles (gameState m'))) = 11
                              \<or> score (right (paddles (gameState m'))) = 11
                           then Completed else Playing)"
      and w: "winner m' = (if score (left (paddles (gameState m'))) = 11 then Some (entryOf bob 1000)
                           else if score (right (paddles (gameState m'))) = 11 then Some (entryOf alice 0)
                           else winner (engineAB Playing 10 10 kickoff))"
      by (elim exE conjE) (rule that; assumption)
    have sl': "score (left (paddles (gameState m'))) = 10"
      and sr': "score (right (paddles (gameState m'))) = 10"
      by (simp_all add: sl sr js_ge_def)
    have st': "status m' = Playing" and w': "winner m' = None"
      by (simp_all add: st w sl' sr')
    from u ms sl' sr' st' w' show ?thesis
      by (intro exI conjI)
  qed
  from 1 2 show ?thesis by (intro conjI)
qed

text \<open>
  C6. \<open>elapsedSeconds\<close> is the time since the last tick divided by 1000, \<open>nx\<close> and
  \<open>ny\<close> are the ball's coordinates plus velocity times \<open>elapsedSeconds\<close> times 60, all in
  the runtime's arithmetic. On a \<open>Playing\<close> match, when the advanced ball meets neither
  a wall (\<open>ny \<le> 10\<close>, \<open>ny \<ge> 590\<close>) nor a goal line (\<open>nx \<le> 0\<close>, \<open>nx \<ge> 800\<close>), the ball
  ends the tick at \<open>nx\<close>, \<open>ny\<close>, whatever the paddles do to its velocity. On a match that
  is not \<open>Playing\<close> the tick returns the state as it was.
\<close>

theorem tick_advances_ball:
  assumes m: "matches s mid = Some m"
    and e: "elapsedSeconds = js_div ar (Num (real_of_int (now - lastTick m))) (Num 1000)"
    and nx: "nx = js_add ar (ball_x (ball (gameState m)))
                   (js_mul ar (js_mul ar (ball_vx (ball (gameState m))) elapsedSeconds) (Num 60))"
    and ny: "ny = js_add ar (ball_y (ball (gameState m)))
                   (js_mul ar (js_mul ar (ball_vy (ball (gameState m))) elapsedSeconds) (Num 60))"
  shows "(status m = Playing
          \<and> \<not> js_le ny (Num 10) \<and> \<not> js_ge ny (Num 590)
          \<and> \<not> js_le nx (Num 0) \<and> \<not> js_ge nx (Num 800)
          \<longrightarrow> (\<exists>m'. matches (stateOf (updateGameState ar mid now rnd1 rnd2 s)) mid = Some m'
                 \<and> ball_x (ball (gameState m')) = nx
                 \<and> ball_y (ball (gameState m')) = ny))
       \<and> (status m \<noteq> Playing \<longrightarrow> updateGameState ar mid now rnd1 rnd2 s = Inr s)"
proof (intro conjI impI)
  assume "status m \<noteq> Playing"
  then show "updateGameState ar mid now rnd1 rnd2 s = Inr s"
    by (simp add: updateGameState_def m)
next
  assume h: "status m = Playing
          \<and> \<not> js_le ny (Num 10) \<and> \<not> js_ge ny (Num 590)
          \<and> \<not> js_le nx (Num 0) \<and> \<not> js_ge nx (Num 800)"
  then have pl: "status m = Playing"
    and wall: "\<not> js_le ny (Num 10)" "\<not> js_ge ny (Num 590)"
    and goal: "\<not> js_le nx (Num 0)" "\<not> js_ge nx (Num 800)"
    by simp_all
  define deltaTime where "deltaTime = js_div ar (Num (real_of_int (now - lastTick m))) (Num 1000)"
  define b1 where "b1 = (ball (gameState m))\<lparr>ball_x :=
               js_add ar (ball_x (ball (gameState m)))
                 (js_mul ar (js_mul ar (ball_vx (ball (gameState m))) deltaTime) (Num 60))\<rparr>"
  define b2 where "b2 = b1\<lparr>ball_y := js_add ar (ball_y b1) (js_mul ar (js_mul ar (ball_vy b1) deltaTime) (Num 60))\<rparr>"
  define b3 where "b3 = (if js_le (ball_y b2) (Num 10) \<or> js_ge (ball_y b2) (Num 590)
                   then b2\<lparr>ball_vy := js_neg (ball_vy b2),
                           ball_y := Math_max (Num 10) (Math_min (Num 590) (ball_y b2))\<rparr>
                   else b2)"
  define g1 where "g1 = handlePaddleCollision ar ((gameState m)\<lparr>ball := b3\<rparr>)"
  define g2 where "g2 = (if js_le (ball_x (ball g1)) (Num 0)
                   then resetBall ar rnd1 rnd2
                          (g1\<lparr>paddles := (paddles g1)\<lparr>right := (right (paddles g1))
                                \<lparr>score := score (right (paddles g1)) + 1\<rparr>\<rparr>\<rparr>)
                   else if js_ge (ball_x (ball g1)) (Num 800)
                   then resetBall ar rnd1 rnd2
                          (g1\<lparr>paddles := (paddles g1)\<lparr>left := (left (paddles g1))
                                \<lparr>score := score (left (paddles g1)) + 1\<rparr>\<rparr>\<rparr>)
                   else g1)"
  define over where "over = (score (left (paddles g2)) \<ge> 11 \<or> score (right (paddles g2)) \<ge> 11)"
  define w where "w = (if score (left (paddles g2)) > score (right (paddles g2))
                 then index_opt (players m) 0 else index_opt (players m) 1)"
  have dt: "deltaTime = elapsedSeconds"
    by (simp add: deltaTime_def e)
  have x2: "ball_x b2 = nx" and y2: "ball_y b2 = ny"
    by (simp_all add: b2_def b1_def dt nx ny)
  have b3: "b3 = b2"
    using wall by (simp add: b3_def y2)
  have x1: "ball_x (ball g1) = nx" and y1: "ball_y (ball g1) = ny"
    by (simp_all add: g1_def handlePaddleCollision_keeps b3 x2 y2)
  have g2: "g2 = g1"
    using goal by (simp add: g2_def x1)
  from updateGameState_result [OF m pl deltaTime_def b1_def b2_def b3_def g1_def g2_def over_def w_def]
  obtain m' where res: "matches (stateOf (updateGameState ar mid now rnd1 rnd2 s)) mid = Some m'"
      "ball (gameState m') = ball g2"
    by (elim exE conjE) (rule that; assumption)
  show "\<exists>m'. matches (stateOf (updateGameState ar mid now rnd1 rnd2 s)) mid = Some m'
                 \<and> ball_x (ball (gameState m')) = nx
                 \<and> ball_y (ball (gameState m')) = ny"
    using res by (simp add: g2 x1 y1)
qed

theorem tick_advances_ball_witness:
  "(\<exists>m'. matches (stateOf (updateGameState exactArith ''m1'' 1125 0 0
                             (stateAB Playing 0 0 kickoff))) ''m1'' = Some m'
         \<and> ball_x (ball (gameState m')) = Num (875 / 2)
         \<and> ball_y (ball (gameState m')) = Num (645 / 2))
   \<and> updateGameState exactArith ''m1'' 1125 0 0 (stateAB Paused 0 0 kickoff)
       = Inr (stateAB Paused 0 0 kickoff)"
proof -
  have p: "matches (stateAB Playing 0 0 kickoff) ''m1'' = Some (engineAB Playing 0 0 kickoff)"
    and q: "matches (stateAB Paused 0 0 kickoff) ''m1'' = Some (engineAB Paused 0 0 kickoff)"
    by simp_all
  have e: "Num (1 / 8) = js_div exactArith
             (Num (real_of_int (1125 - lastTick (engineAB st 0 0 kickoff)))) (Num 1000)"
    and nx: "Num (875 / 2) = js_add exactArith (ball_x (ball (gameState (engineAB st 0 0 kickoff))))
               (js_mul exactArith (js_mul exactArith
                  (ball_vx (ball (gameState (engineAB st 0 0 kickoff)))) (Num (1 / 8))) (Num 60))"
    and ny: "Num (645 / 2) = js_add exactArith (ball_y (ball (gameState (engineAB st 0 0 kickoff))))
               (js_mul exactArith (js_mul exactArith
                  (ball_vy (ball (gameState (engineAB st 0 0 kickoff)))) (Num (1 / 8))) (Num 60))"
    for st
    by (simp_all add: exactArith_def kickoff_def)
  show ?thesis
    using tick_advances_ball [OF p e nx ny, where ?rnd1.0 = 0 and ?rnd2.0 = 0]
          tick_advances_ball [OF q e nx ny, where ?rnd1.0 = 0 and ?rnd2.0 = 0]
    by (simp add: js_ge_def)
qed

text \<open>
  C10. \<open>endMatch\<close> on an existing match with two players returns, marks the match
  \<open>Completed\<close> and records the first player as winner when the left score is strictly
  greater than the right score, and the second player otherwise, equal scores included.
  The function takes no end reason, and the winner it records is never absent.
\<close>

theorem endMatch_winner_by_score:
  assumes m: "matches s mid = Some m" and two: "players m = [p0, p1]"
  shows "\<exists>s' m'. GameEngine_endMatch mid s = Inr s' \<and> matches s' mid = Some m'
           \<and> status m' = Completed
           \<and> winner m' = Some (if score (left (paddles (gameState m)))
                                    > score (right (paddles (gameState m)))
                                then p0 else p1)"
  by (simp add: GameEngine_endMatch_some [OF m refl refl] two)

theorem endMatch_winner_by_score_witness:
  "\<exists>s' m'. GameEngine_endMatch ''m1'' (stateAB Paused 3 3 kickoff) = Inr s'
       \<and> matches s' ''m1'' = Some m' \<and> status m' = Completed
       \<and> winner m' = Some (entryOf alice 0)"
proof -
  have p: "matches (stateAB Paused 3 3 kickoff) ''m1'' = Some (engineAB Paused 3 3 kickoff)"
    by simp
  show ?thesis
    using endMatch_winner_by_score [OF p engineAB_simps(2)] by simp
qed

section \<open>The input path\<close>

text \<open>
  What \<open>validateInput\<close> accepts, and the two outcomes of \<open>updatePlayerInput\<close>: a
  rejected call changes nothing, an accepted finite input moves the sender's paddle only.
\<close>

lemma validateInput_iff:
  "validateInput inp \<longleftrightarrow>
     paddleY inp = JNumber NaN
     \<or> (\<exists>v. paddleY inp = JNumber (Num v) \<and> 50 \<le> v \<and> v \<le> 550)"
proof (cases "paddleY inp")
  case (JNumber n)
  then show ?thesis
    by (cases n) (auto simp: validateInput_def js_gt_def)
next
  case JOther
  then show ?thesis by (simp add: validateInput_def)
qed

lemma updatePlayerInput_rejected_unchanged:
  "fst (updatePlayerInput mid playerId inp s) = False \<Longrightarrow>
   snd (updatePlayerInput mid playerId inp s) = s"
  by (simp add: updatePlayerInput_def Let_def split: option.splits if_splits jsval.splits)

lemma updatePlayerInput_rejects:
  assumes "matches s mid = None
           \<or> (\<exists>m. matches s mid = Some m
                 \<and> (status m \<noteq> Playing \<or> findIndex (\<lambda>p. userId p = playerId) (players m) = None))
           \<or> \<not> validateInput inp"
  shows "updatePlayerInput mid playerId inp s = (False, s)"
  using assms
  by (auto simp: updatePlayerInput_def split: option.splits)

lemma updatePlayerInput_accepts_number:
  assumes m: "matches s mid = Some m" and pl: "status m = Playing"
    and i: "findIndex (\<lambda>p. userId p = playerId) (players m) = Some i"
    and v: "paddleY inp = JNumber (Num v)" "50 \<le> v" "v \<le> 550"
  shows "updatePlayerInput mid playerId inp s =
     (True, s\<lparr>matches := (matches s)(mid \<mapsto> m\<lparr>gameState := (gameState m)\<lparr>paddles :=
        (if i = 0 then (paddles (gameState m))\<lparr>left := (left (paddles (gameState m)))\<lparr>paddle_y := Num v\<rparr>\<rparr>
         else (paddles (gameState m))\<lparr>right := (right (paddles (gameState m)))\<lparr>paddle_y := Num v\<rparr>\<rparr>)\<rparr>\<rparr>)\<rparr>)"
  using v(2,3)
  by (simp add: updatePlayerInput_def m pl i v(1) validateInput_def js_gt_def Let_def)

lemma entry_ids [simp]: "userId (entryOf p now) = userId p" "socketId (entryOf p now) = socketId p"
  "username (entryOf p now) = username p" "rating (entryOf p now) = rating p"
  by (simp_all add: entryOf_def player.defs)

text \<open>
  C2. The paddle input \<open>NaN\<close> is a number for \<open>typeof\<close> and is neither below 50 nor above
  550, so \<open>validateInput\<close> lets it through: on the playing match of the example, an input
  with \<open>paddleY = NaN\<close> from alice (the second player, hence the right paddle) returns
  \<open>true\<close> and leaves the right paddle at \<open>NaN\<close>.
\<close>

theorem updatePlayerInput_accepts_NaN:
  "fst (updatePlayerInput ''m1'' 1 \<lparr>paddleY = JNumber NaN\<rparr> (stateAB Playing 0 0 kickoff)) = True
   \<and> map_option (\<lambda>m. paddle_y (right (paddles (gameState m))))
        (matches (snd (updatePlayerInput ''m1'' 1 \<lparr>paddleY = JNumber NaN\<rparr>
                         (stateAB Playing 0 0 kickoff))) ''m1'') = Some NaN"
  by (simp add: updatePlayerInput_def validateInput_def js_gt_def Let_def alice_def bob_def)

section \<open>Disconnection\<close>

lemma handlePlayerDisconnect_some:
  assumes "activeMatches s k = Some m"
  shows "handlePlayerDisconnect k sock s =
     s\<lparr>outbox := outbox s @ [(ToRoomExcept (roomId m) (sock_id sock),
                                PlayerDisconnected (sock_username sock))],
       activeMatches := (activeMatches s)(k \<mapsto> m\<lparr>status := Paused\<rparr>),
       timers := (timers s)(nextTimer s \<mapsto>
                   Timeout 30000 (Grace (m\<lparr>status := Paused\<rparr>) (sock_id sock))),
       nextTimer := Suc (nextTimer s)\<rparr>"
  using assms by (simp add: handlePlayerDisconnect_def emit_def setTimeout_def Let_def)

lemma graceTimeout_paused:
  assumes am: "activeMatches s (m_id m) = Some cur" and st: "status cur = Paused"
    and em: "matches s (m_id m) = Some em" and two: "players em = [p0, p1]"
  shows "\<exists>s3. graceTimeout m sid s = Inr s3
           \<and> activeMatches s3 = (activeMatches s)(m_id m := None)
           \<and> matches s3 = (matches s)(m_id m := None)
           \<and> timers s3 = (case tickInterval em of None \<Rightarrow> timers s
                             | Some t \<Rightarrow> (timers s)(t := None))
           \<and> outbox s3 = outbox s @ [(ToRoom (roomId m), MatchEnded ''player_disconnect''
                 (map_option username (find (\<lambda>p. socketId p \<noteq> sid) (players m))))]"
proof -
  define w where "w = (if score (left (paddles (gameState em))) > score (right (paddles (gameState em)))
              then index_opt (players em) 0 else index_opt (players em) 1)"
  define s2 where "s2 = (case tickInterval em of None \<Rightarrow> s | Some t \<Rightarrow> clearTimer t s)
                \<lparr>matches := (matches s)(m_id m \<mapsto> em\<lparr>status := Completed, winner := w\<rparr>)\<rparr>"
  have wn: "w \<noteq> None" by (simp add: w_def two)
  have e: "GameEngine_endMatch (m_id m) s = Inr s2"
    using GameEngine_endMatch_some [OF em w_def s2_def] wn by (cases w) simp_all
  have ms2: "matches s2 (m_id m) = Some (em\<lparr>status := Completed, winner := w\<rparr>)"
    by (simp add: s2_def)
  show ?thesis
    by (simp add: graceTimeout_def am st e Let_def removeMatch_def ms2 emit_def)
       (simp add: s2_def clearTimer_def split: option.splits)
qed

lemma pausedAB_eq:
  "pausedAB = matchedAB\<lparr>outbox := outbox matchedAB @
       [(ToRoomExcept ''game-m1'' ''sA'', PlayerDisconnected ''alice'')],
     activeMatches := (activeMatches matchedAB)(''m1'' \<mapsto> matchAB\<lparr>status := Paused\<rparr>),
     timers := (timers matchedAB)(4 \<mapsto> Timeout 30000 (Grace (matchAB\<lparr>status := Paused\<rparr>) ''sA'')),
     nextTimer := 5\<rparr>"
proof -
  have am: "activeMatches matchedAB ''m1'' = Some matchAB"
    by (simp add: matchedAB_facts)
  have r: "roomId matchAB = ''game-m1''"
    by (simp add: matchAB_def MatchmakingService_createMatch_def)
  show ?thesis
    unfolding pausedAB_def handlePlayerDisconnect_some [OF am]
    by (simp add: matchedAB_facts r aliceSocket_def)
qed

text \<open>
  What \<open>handlePlayerDisconnect\<close> and its timer do once the function is called, for a
  match \<open>m\<close> of \<open>activeMatches\<close> (stored under its id, with two players on different
  sockets) and the socket of one of them; \<open>other\<close> is the remaining player, a member of
  the match's room. Afterwards (\<open>s'\<close>) the match is \<open>Paused\<close>, the \<open>player:disconnected\<close>
  message has gone to the room without the lost socket, and a 30000 ms timeout \<open>t\<close> is
  pending. If that timer fires in a later state \<open>s2\<close> where the match is still in
  \<open>activeMatches\<close> and still \<open>Paused\<close>, the callback returns with the match removed from
  \<open>activeMatches\<close> and from the engine, and \<open>match:ended\<close> sent to the room with reason
  \<open>player_disconnect\<close> and the remaining player's name as winner.
\<close>

lemma handlePlayerDisconnect_then_grace:
  assumes am: "activeMatches s k = Some m" and key: "m_id m = k"
    and two: "players m = [p0, p1]" and distinct: "socketId p0 \<noteq> socketId p1"
    and who: "sock_id sock = socketId p0 \<or> sock_id sock = socketId p1"
    and other: "other = (if sock_id sock = socketId p0 then p1 else p0)"
    and inroom: "socketId other \<in> rooms s (roomId m)"
    and s': "s' = handlePlayerDisconnect k sock s"
    and t: "t = nextTimer s"
    and pend: "timers s2 t = timers s' t"
    and still: "activeMatches s2 k = Some cur" "status cur = Paused"
    and eng: "matches s2 k = Some em" "players em = players m"
  shows "map_option status (activeMatches s' k) = Some Paused
       \<and> outbox s' = outbox s @ [(ToRoomExcept (roomId m) (sock_id sock),
                                   PlayerDisconnected (sock_username sock))]
       \<and> socketId other \<in> receivers s' (ToRoomExcept (roomId m) (sock_id sock))
       \<and> timers s' t = Some (Timeout 30000 (Grace (m\<lparr>status := Paused\<rparr>) (sock_id sock)))
       \<and> (\<exists>s3. fireTimer ar t uuid now rnd1 rnd2 s2 = Inr s3
              \<and> activeMatches s3 k = None \<and> matches s3 k = None \<and> timers s3 t = None
              \<and> outbox s3 = outbox s2 @ [(ToRoom (roomId m),
                    MatchEnded ''player_disconnect'' (Some (username other)))])"
proof -
  let ?m1 = "m\<lparr>status := Paused\<rparr>"
  have eq: "s' = s\<lparr>outbox := outbox s @ [(ToRoomExcept (roomId m) (sock_id sock),
                                PlayerDisconnected (sock_username sock))],
       activeMatches := (activeMatches s)(k \<mapsto> ?m1),
       timers := (timers s)(nextTimer s \<mapsto> Timeout 30000 (Grace ?m1 (sock_id sock))),
       nextTimer := Suc (nextTimer s)\<rparr>"
    unfolding s' by (rule handlePlayerDisconnect_some [OF am])
  have ne: "socketId other \<noteq> sock_id sock"
  proof (cases "sock_id sock = socketId p0")
    case True
    then have "other = p1" by (simp add: other)
    with True distinct show ?thesis by simp
  next
    case False
    then have "other = p0" by (simp add: other)
    with False show ?thesis by simp
  qed
  have a: "map_option status (activeMatches s' k) = Some Paused"
    and b: "outbox s' = outbox s @ [(ToRoomExcept (roomId m) (sock_id sock),
                                   PlayerDisconnected (sock_username sock))]"
    and c: "timers s' t = Some (Timeout 30000 (Grace ?m1 (sock_id sock)))"
    and r: "rooms s' = rooms s"
    by (simp_all add: eq t)
  have d: "socketId other \<in> receivers s' (ToRoomExcept (roomId m) (sock_id sock))"
    using inroom ne by (simp add: receivers_def r)
  have f: "find (\<lambda>p. socketId p \<noteq> sock_id sock) (players m) = Some other"
  proof (cases "sock_id sock = socketId p0")
    case True
    then have "other = p1" by (simp add: other)
    with True distinct show ?thesis by (simp add: two)
  next
    case False
    then have "other = p0" by (simp add: other)
    with False show ?thesis by (simp add: two)
  qed
  let ?s2 = "clearTimer t s2"
  have am2: "activeMatches ?s2 (m_id ?m1) = Some cur"
    and em2: "matches ?s2 (m_id ?m1) = Some em"
    by (simp_all add: clearTimer_def key still eng)
  have two2: "players em = [p0, p1]" by (simp add: eng two)
  from graceTimeout_paused [OF am2 still(2) em2 two2, of "sock_id sock"]
  obtain s3 where g: "graceTimeout ?m1 (sock_id sock) ?s2 = Inr s3"
    and g1: "activeMatches s3 = (activeMatches ?s2)(m_id ?m1 := None)"
    and g2: "matches s3 = (matches ?s2)(m_id ?m1 := None)"
    and g3: "timers s3 = (case tickInterval em of None \<Rightarrow> timers ?s2
                             | Some t \<Rightarrow> (timers ?s2)(t := None))"
    and g4: "outbox s3 = outbox ?s2 @ [(ToRoom (roomId ?m1), MatchEnded ''player_disconnect''
                 (map_option username (find (\<lambda>p. socketId p \<noteq> sock_id sock) (players ?m1))))]"
    by (elim exE conjE) (rule that; assumption)
  have fire: "fireTimer ar t uuid now rnd1 rnd2 s2 = Inr s3"
    by (simp add: fireTimer_def pend c runCallback_def g)
  have h1: "activeMatches s3 k = None" by (simp add: g1 key)
  have h2: "matches s3 k = None" by (simp add: g2 key)
  have h3: "timers s3 t = None" by (simp add: g3 clearTimer_def split: option.splits)
  have h4: "outbox s3 = outbox s2 @ [(ToRoom (roomId m),
                    MatchEnded ''player_disconnect'' (Some (username other)))]"
    by (simp add: g4 f clearTimer_def)
  have "\<exists>s3. fireTimer ar t uuid now rnd1 rnd2 s2 = Inr s3
              \<and> activeMatches s3 k = None \<and> matches s3 k = None \<and> timers s3 t = None
              \<and> outbox s3 = outbox s2 @ [(ToRoom (roomId m),
                    MatchEnded ''player_disconnect'' (Some (username other)))]"
    using fire h1 h2 h3 h4 by (intro exI conjI)
  with a b c d show ?thesis by (intro conjI)
qed

lemma matchAB_simps [simp]:
  "m_id matchAB = ''m1''" "roomId matchAB = ''game-m1''"
  "players matchAB = [entryOf bob 1000, entryOf alice 0]"
  "status matchAB = Starting"
  by (simp_all add: matchAB_def MatchmakingService_createMatch_def)

lemma handlePlayerDisconnect_then_grace_example:
  "map_option status (activeMatches pausedAB ''m1'') = Some Paused
   \<and> outbox pausedAB = outbox matchedAB @
         [(ToRoomExcept ''game-m1'' ''sA'', PlayerDisconnected ''alice'')]
   \<and> ''sB'' \<in> receivers pausedAB (ToRoomExcept ''game-m1'' ''sA'')
   \<and> timers pausedAB 4 = Some (Timeout 30000 (Grace (matchAB\<lparr>status := Paused\<rparr>) ''sA''))
   \<and> (\<exists>s3. fireTimer exactArith 4 ''m9'' 31000 0 0 pausedAB = Inr s3
          \<and> activeMatches s3 ''m1'' = None \<and> matches s3 ''m1'' = None \<and> timers s3 4 = None
          \<and> outbox s3 = outbox pausedAB @
                [(ToRoom ''game-m1'', MatchEnded ''player_disconnect'' (Some ''bob''))])"
proof -
  have am: "activeMatches matchedAB ''m1'' = Some matchAB"
    by (simp add: matchedAB_facts)
  have key: "m_id matchAB = ''m1''" by simp
  have two: "players matchAB = [entryOf bob 1000, entryOf alice 0]" by simp
  have distinct: "socketId (entryOf bob 1000) \<noteq> socketId (entryOf alice 0)"
    by (simp add: alice_def bob_def)
  have who: "sock_id aliceSocket = socketId (entryOf bob 1000)
             \<or> sock_id aliceSocket = socketId (entryOf alice 0)"
    by (simp add: alice_def aliceSocket_def)
  have other: "entryOf bob 1000 = (if sock_id aliceSocket = socketId (entryOf bob 1000)
                                   then entryOf alice 0 else entryOf bob 1000)"
    by (simp add: bob_def aliceSocket_def)
  have inroom: "socketId (entryOf bob 1000) \<in> rooms matchedAB (roomId matchAB)"
    by (simp add: matchedAB_facts bob_def)
  have t: "4 = nextTimer matchedAB" by (simp add: matchedAB_facts)
  have pend: "timers pausedAB 4 = timers pausedAB 4" by simp
  have still: "activeMatches pausedAB ''m1'' = Some (matchAB\<lparr>status := Paused\<rparr>)"
    "status (matchAB\<lparr>status := Paused\<rparr>) = Paused"
    by (simp_all add: pausedAB_eq)
  have eng: "matches pausedAB ''m1'' = Some (match.extend matchAB
       \<lparr>lastTick = 1000, tickInterval = Some 2, winner = None\<rparr>)"
    "players (match.extend matchAB \<lparr>lastTick = 1000, tickInterval = Some 2, winner = None\<rparr>)
       = players matchAB"
    by (simp_all add: pausedAB_eq matchedAB_facts match.defs)
  show ?thesis
    using handlePlayerDisconnect_then_grace [OF am key two distinct who other inroom
        pausedAB_def t pend still eng, where ar = exactArith and uuid = "''m9''"
        and now = 31000 and ?rnd1.0 = 0 and ?rnd2.0 = 0]
    by (simp add: aliceSocket_def alice_def bob_def pausedAB_eq)
qed

lemma disconnect_tail_without_match:
  assumes "Option.bind (activeConnections s (sock_id sock)) currentMatch = None"
  shows "disconnect_tail sock s = s"
  using assms by (simp add: disconnect_tail_def)

lemma handleDisconnection_without_match:
  assumes "activeConnections s sid = Some c" and "currentMatch c = None"
  shows "handleDisconnection sid now s =
     broadcastServerStats now
       (s\<lparr>matchmakingQueue := filter (\<lambda>p. socketId p \<noteq> sid) (matchmakingQueue s),
          activeConnections := (activeConnections s)(sid := None)\<rparr>)"
  using assms by (simp add: handleDisconnection_def Let_def)

lemma disconnectedAB_eq:
  "disconnectedAB = matchedAB\<lparr>queue := [], matchmakingQueue := [],
       activeConnections := (activeConnections connectedAB)(''sA'' := None),
       outbox := outbox matchedAB @ [(ToAll, ServerStats 1 1 0 5000)]\<rparr>"
proof -
  let ?h = "disconnect_head aliceSocket matchedAB"
  have sa: "sock_id aliceSocket = ''sA''" and su: "sock_userId aliceSocket \<noteq> 0"
    by (simp_all add: aliceSocket_def)
  have st: "searchTimeouts matchedAB (Suc 0) = None"
    using matchedAB_facts(10) by simp
  have h: "?h = matchedAB\<lparr>queue := []\<rparr>"
    by (simp add: disconnect_head_def removeFromQueue_def aliceSocket_def matchedAB_facts st)
  have c: "activeConnections ?h ''sA'' =
     Some \<lparr>conn_socket = aliceSocket, conn_userId = Some 1, currentMatch = None, conn_joinedAt = 0\<rparr>"
    by (simp add: h matchedAB_facts connectedAB_facts)
  have d: "handleDisconnection ''sA'' 5000 ?h =
     broadcastServerStats 5000
       (?h\<lparr>matchmakingQueue := filter (\<lambda>p. socketId p \<noteq> ''sA'') (matchmakingQueue ?h),
           activeConnections := (activeConnections ?h)(''sA'' := None)\<rparr>)"
    by (rule handleDisconnection_without_match [OF c]) simp
  have e: "handleDisconnection ''sA'' 5000 ?h =
     matchedAB\<lparr>queue := [], matchmakingQueue := [],
       activeConnections := (activeConnections connectedAB)(''sA'' := None),
       outbox := outbox matchedAB @ [(ToAll, ServerStats 1 1 0 5000)]\<rparr>"
    unfolding d
    by (simp add: h broadcastServerStats_def emit_def matchedAB_facts connectedAB_facts)
  have t: "disconnect_tail aliceSocket (handleDisconnection ''sA'' 5000 ?h)
             = handleDisconnection ''sA'' 5000 ?h"
    by (rule disconnect_tail_without_match) (simp add: e sa)
  have "disconnectedAB = disconnect_tail aliceSocket (handleDisconnection ''sA'' 5000 ?h)"
    by (simp add: disconnectedAB_def onDisconnect_def sa su)
  also have "\<dots> = handleDisconnection ''sA'' 5000 ?h"
    by (rule t)
  also note e
  finally show ?thesis .
qed

text \<open>
  C9. In the example run alice, a player of the match \<open>m1\<close>, loses her socket, and both
  \<open>disconnect\<close> listeners run. Her connection record has no current match, so neither
  listener reaches the match: it is in \<open>activeMatches\<close> as before, with status \<open>Starting\<close>
  and not \<open>Paused\<close>; no timer has been added; the one message sent is the server's
  statistics, and nothing tells bob that his opponent is gone.
\<close>

theorem participant_disconnect_pauses_nothing:
  "activeMatches matchedAB ''m1'' = Some matchAB
   \<and> map socketId (players matchAB) = [sock_id bobSocket, sock_id aliceSocket]
   \<and> activeMatches disconnectedAB ''m1'' = Some matchAB
   \<and> status matchAB = Starting
   \<and> timers disconnectedAB = timers matchedAB
   \<and> nextTimer disconnectedAB = nextTimer matchedAB
   \<and> outbox disconnectedAB = outbox matchedAB @ [(ToAll, ServerStats 1 1 0 5000)]"
proof -
  have 1: "activeMatches matchedAB ''m1'' = Some matchAB"
    by (simp add: matchedAB_facts)
  have 2: "map socketId (players matchAB) = [sock_id bobSocket, sock_id aliceSocket]"
    by (simp add: alice_def bob_def aliceSocket_def bobSocket_def)
  have 3: "activeMatches disconnectedAB ''m1'' = Some matchAB"
    by (simp add: disconnectedAB_eq matchedAB_facts)
  have 4: "status matchAB = Starting" by simp
  have 5: "timers disconnectedAB = timers matchedAB"
    and 6: "nextTimer disconnectedAB = nextTimer matchedAB"
    and 7: "outbox disconnectedAB = outbox matchedAB @ [(ToAll, ServerStats 1 1 0 5000)]"
    by (simp_all add: disconnectedAB_eq)
  from 1 2 3 4 5 6 7 show ?thesis
    by (intro conjI)
qed

section \<open>Timers of a paused or completed match\<close>

text \<open>
  C5, as stated, fails: after \<open>handlePlayerDisconnect\<close> has paused the example match,
  the interval that \<open>startGameLoop\<close> registered for it is still pending.
\<close>

theorem pause_keeps_tick_timer:
  "map_option status (activeMatches pausedAB ''m1'') = Some Paused
   \<and> map_option tickInterval (matches pausedAB ''m1'') = Some (Some 2)
   \<and> timers pausedAB 2 = Some (Interval (1000 / 60) (GameTick ''m1''))"
  by (simp add: pausedAB_eq matchedAB_facts match.defs)

text \<open>
  C5, amended. \<open>endMatch\<close> marks the engine's match \<open>Completed\<close> and removes its tick
  timer from the pending timers. \<open>handlePlayerDisconnect\<close> marks the match \<open>Paused\<close> and
  cancels nothing: the pending timers afterwards are those before, plus the new
  30000 ms timeout.
\<close>

theorem completion_cancels_tick_timer:
  assumes em: "matches s mid = Some em" and ti: "tickInterval em = Some t"
    and am: "activeMatches s k = Some m"
  shows "map_option status (matches (stateOf (GameEngine_endMatch mid s)) mid) = Some Completed
       \<and> timers (stateOf (GameEngine_endMatch mid s)) t = None
       \<and> map_option status (activeMatches (handlePlayerDisconnect k sock s) k) = Some Paused
       \<and> timers (handlePlayerDisconnect k sock s) =
           (timers s)(nextTimer s \<mapsto> Timeout 30000 (Grace (m\<lparr>status := Paused\<rparr>) (sock_id sock)))"
proof -
  have "map_option status (matches (stateOf (GameEngine_endMatch mid s)) mid) = Some Completed
       \<and> timers (stateOf (GameEngine_endMatch mid s)) t = None"
    by (simp add: GameEngine_endMatch_some [OF em refl refl] ti clearTimer_def split: option.splits)
  then show ?thesis
    by (simp add: handlePlayerDisconnect_some [OF am])
qed

theorem completion_cancels_tick_timer_witness:
  "map_option status (matches (stateOf (GameEngine_endMatch ''m1'' matchedAB)) ''m1'') = Some Completed
   \<and> timers (stateOf (GameEngine_endMatch ''m1'' matchedAB)) 2 = None
   \<and> map_option status (activeMatches (handlePlayerDisconnect ''m1'' aliceSocket matchedAB) ''m1'')
       = Some Paused
   \<and> timers (handlePlayerDisconnect ''m1'' aliceSocket matchedAB) =
       (timers matchedAB)(4 \<mapsto> Timeout 30000 (Grace (matchAB\<lparr>status := Paused\<rparr>) ''sA''))"
proof -
  have em: "matches matchedAB ''m1'' = Some (match.extend matchAB
       \<lparr>lastTick = 1000, tickInterval = Some 2, winner = None\<rparr>)"
    by (simp add: matchedAB_facts)
  have ti: "tickInterval (match.extend matchAB
       \<lparr>lastTick = 1000, tickInterval = Some 2, winner = None\<rparr>) = Some 2"
    by (simp add: match.defs)
  have am: "activeMatches matchedAB ''m1'' = Some matchAB"
    by (simp add: matchedAB_facts)
  show ?thesis
    using completion_cancels_tick_timer [OF em ti am, of aliceSocket]
    by (simp add: matchedAB_facts aliceSocket_def)
qed

section \<open>Reconnection\<close>

lemma onConnection_eq:
  "onConnection sock now s =
     s\<lparr>activeConnections := (activeConnections s)(sock_id sock \<mapsto>
          \<lparr>conn_socket = sock, conn_userId = Some (sock_userId sock), currentMatch = None,
           conn_joinedAt = now\<rparr>)\<rparr>"
  by (simp add: onConnection_def)

text \<open>
  C3, amended. A connection that arrives, whatever identity it authenticated with and
  whatever matches are paused, gets a fresh record with no current match; the matches
  of \<open>activeMatches\<close> and of the engine (status and game state included) and the pending
  timers are as before. Nothing is rebound, no match resumes, no grace timer is
  canceled.
\<close>

theorem reconnect_rebinds_nothing:
  "activeMatches (onConnection sock now s) = activeMatches s
   \<and> matches (onConnection sock now s) = matches s
   \<and> timers (onConnection sock now s) = timers s
   \<and> activeConnections (onConnection sock now s) (sock_id sock) =
       Some \<lparr>conn_socket = sock, conn_userId = Some (sock_userId sock), currentMatch = None,
             conn_joinedAt = now\<rparr>"
  by (simp add: onConnection_eq)

text \<open>
  C3, as stated, fails: alice's match is \<open>Paused\<close> with its grace timer pending; she
  connects again with the same user id before the timer fires. Her new connection has no
  current match, the match is still \<open>Paused\<close> and the grace timer is still pending.
\<close>

theorem reconnect_leaves_match_paused:
  "map_option status (activeMatches pausedAB ''m1'') = Some Paused
   \<and> timers pausedAB 4 = Some (Timeout 30000 (Grace (matchAB\<lparr>status := Paused\<rparr>) ''sA''))
   \<and> sock_userId aliceSocket2 = sock_userId aliceSocket
   \<and> map_option currentMatch (activeConnections reconnectedAB ''sA2'') = Some None
   \<and> map_option status (activeMatches reconnectedAB ''m1'') = Some Paused
   \<and> timers reconnectedAB 4 = Some (Timeout 30000 (Grace (matchAB\<lparr>status := Paused\<rparr>) ''sA''))"
  by (simp add: reconnectedAB_def onConnection_eq pausedAB_eq aliceSocket2_def aliceSocket_def)

section \<open>Connections after a pairing\<close>

lemma activeConnections_emit [simp]: "activeConnections (emit tg msg s) = activeConnections s"
  by (simp add: emit_def)

lemma activeConnections_removeFromQueue [simp]:
  "activeConnections (removeFromQueue uid s) = activeConnections s"
  by (simp add: removeFromQueue_def clearTimer_def Let_def split: option.splits)

lemma activeConnections_setExpandingSearch [simp]:
  "activeConnections (setExpandingSearch uid s) = activeConnections s"
  by (simp add: setExpandingSearch_def setTimeout_def)

lemma activeConnections_findMatch [simp]:
  "activeConnections (snd (findMatch p uuid now s)) = activeConnections s"
  by (simp add: findMatch_def Let_def split: option.splits)

lemma activeConnections_addToQueue [simp]:
  "activeConnections (snd (addToQueue p uuid now s)) = activeConnections s"
  by (simp add: addToQueue_def Let_def)

lemma activeConnections_matchFound_player [simp]:
  "activeConnections (matchFound_player m p s) = activeConnections s"
  by (simp add: matchFound_player_def Let_def join_room_def emit_def split: option.splits)

lemma activeConnections_foldl_matchFound_player [simp]:
  "activeConnections (foldl (\<lambda>st p. matchFound_player m p st) s ps) = activeConnections s"
  by (induction ps arbitrary: s) simp_all

lemma activeConnections_GameEngine_createMatch [simp]:
  "activeConnections (GameEngine_createMatch m now s) = activeConnections s"
  by (simp add: GameEngine_createMatch_def startGameLoop_def setInterval_def split: option.splits)

lemma handleMatchFound_keeps_connections:
  "activeConnections (handleMatchFound m now s) = activeConnections s"
  by (simp add: handleMatchFound_def Let_def setTimeout_def)

lemma matchmaking_join_keeps_connections:
  "activeConnections (matchmaking_join sock db uuid now s) = activeConnections s"
proof (cases db)
  case (Row u)
  obtain found s1 where a: "addToQueue \<lparr>userId = user_id u, socketId = sock_id sock,
      username = user_username u, displayName = user_display_name u, rating = user_rating u\<rparr>
      uuid now s = (found, s1)"
    by (cases "addToQueue \<lparr>userId = user_id u, socketId = sock_id sock,
      username = user_username u, displayName = user_display_name u, rating = user_rating u\<rparr>
      uuid now s") simp
  have "activeConnections s1 = activeConnections s"
    using activeConnections_addToQueue [of "\<lparr>userId = user_id u, socketId = sock_id sock,
      username = user_username u, displayName = user_display_name u, rating = user_rating u\<rparr>"
      uuid now s] by (simp add: a)
  then show ?thesis
    by (simp add: matchmaking_join_def Row a Let_def handleMatchFound_keeps_connections
        split: option.splits)
qed (simp_all add: matchmaking_join_def)

lemma game_input_no_currentMatch:
  assumes "activeConnections s (sock_id sock) = Some c" and "currentMatch c = None"
  shows "game_input sock inp s = emit (ToSocket (sock_id sock)) (ErrorMsg ''Not in a match'') s"
  using assms by (simp add: game_input_def)

text \<open>
  C1. In the example run the pairing has created the match of bob and alice, yet both
  connection records still have no current match: \<open>handleMatchFound\<close> looks the record up
  in \<open>activeMatches\<close> under the socket id, finds nothing, and assigns nothing. A
  \<open>game:input\<close> message from either of them is answered with \<open>Not in a match\<close> and never
  reaches \<open>updatePlayerInput\<close>.
\<close>

theorem matched_players_input_rejected:
  "activeMatches matchedAB ''m1'' = Some matchAB
   \<and> map userId (players matchAB) = [sock_userId bobSocket, sock_userId aliceSocket]
   \<and> map_option currentMatch (activeConnections matchedAB ''sA'') = Some None
   \<and> map_option currentMatch (activeConnections matchedAB ''sB'') = Some None
   \<and> game_input aliceSocket \<lparr>paddleY = JNumber (Num 300)\<rparr> matchedAB
       = emit (ToSocket ''sA'') (ErrorMsg ''Not in a match'') matchedAB
   \<and> game_input bobSocket \<lparr>paddleY = JNumber (Num 300)\<rparr> matchedAB
       = emit (ToSocket ''sB'') (ErrorMsg ''Not in a match'') matchedAB"
proof -
  have sa: "sock_id aliceSocket = ''sA''" and sb: "sock_id bobSocket = ''sB''"
    by (simp_all add: aliceSocket_def bobSocket_def)
  have a: "activeConnections matchedAB (sock_id aliceSocket) =
     Some \<lparr>conn_socket = aliceSocket, conn_userId = Some 1, currentMatch = None, conn_joinedAt = 0\<rparr>"
    and b: "activeConnections matchedAB (sock_id bobSocket) =
     Some \<lparr>conn_socket = bobSocket, conn_userId = Some 2, currentMatch = None, conn_joinedAt = 0\<rparr>"
    by (simp_all add: matchedAB_facts connectedAB_facts sa sb)
  have ga: "game_input aliceSocket \<lparr>paddleY = JNumber (Num 300)\<rparr> matchedAB
       = emit (ToSocket (sock_id aliceSocket)) (ErrorMsg ''Not in a match'') matchedAB"
    by (rule game_input_no_currentMatch [OF a]) simp
  have gb: "game_input bobSocket \<lparr>paddleY = JNumber (Num 300)\<rparr> matchedAB
       = emit (ToSocket (sock_id bobSocket)) (ErrorMsg ''Not in a match'') matchedAB"
    by (rule game_input_no_currentMatch [OF b]) simp
  have 1: "activeMatches matchedAB ''m1'' = Some matchAB"
    by (simp add: matchedAB_facts)
  have 2: "map userId (players matchAB) = [sock_userId bobSocket, sock_userId aliceSocket]"
    by (simp add: aliceSocket_def bobSocket_def alice_def bob_def)
  have 3: "map_option currentMatch (activeConnections matchedAB ''sA'') = Some None"
    using a by (simp add: sa)
  have 4: "map_option currentMatch (activeConnections matchedAB ''sB'') = Some None"
    using b by (simp add: sb)
  from 1 2 3 4 ga [unfolded sa] gb [unfolded sb] show ?thesis
    by (intro conjI)
qed

section \<open>Joining the queue\<close>

lemma addToQueue_eq:
  "addToQueue p uuid now s =
     findMatch (entryOf p now) uuid now
       (setExpandingSearch (userId p)
          ((removeFromQueue (userId p) s)
             \<lparr>queue := queue (removeFromQueue (userId p) s) @ [entryOf p now]\<rparr>))"
  by (simp add: addToQueue_def Let_def entryOf_def)

lemma outbox_removeFromQueue [simp]: "outbox (removeFromQueue uid s) = outbox s"
  by (simp add: removeFromQueue_def clearTimer_def Let_def split: option.splits)

lemma outbox_setExpandingSearch [simp]: "outbox (setExpandingSearch uid s) = outbox s"
  by (simp add: setExpandingSearch_def setTimeout_def)

lemma outbox_findMatch [simp]: "outbox (snd (findMatch p uuid now s)) = outbox s"
  by (simp add: findMatch_def Let_def split: option.splits)

lemma outbox_addToQueue [simp]: "outbox (snd (addToQueue p uuid now s)) = outbox s"
  by (simp add: addToQueue_eq)

lemma activeMatches_addToQueue [simp]:
  "activeMatches (snd (addToQueue p uuid now s)) = activeMatches s"
  by (simp add: addToQueue_eq findMatch_def removeFromQueue_def setExpandingSearch_def
      setTimeout_def clearTimer_def Let_def split: option.splits)

lemma outbox_GameEngine_createMatch [simp]:
  "outbox (GameEngine_createMatch m now s) = outbox s"
  by (simp add: GameEngine_createMatch_def startGameLoop_def setInterval_def split: option.splits)

lemma errors_matchFound_player [simp]:
  "filter isError (outbox (matchFound_player m p s)) = filter isError (outbox s)"
  by (simp add: matchFound_player_def Let_def join_room_def emit_def isError_def
      split: option.splits)

lemma errors_foldl_matchFound_player [simp]:
  "filter isError (outbox (foldl (\<lambda>st p. matchFound_player m p st) s ps))
     = filter isError (outbox s)"
  by (induction ps arbitrary: s) simp_all

lemma errors_handleMatchFound:
  "filter isError (outbox (handleMatchFound m now s)) = filter isError (outbox s)"
  by (simp add: handleMatchFound_def Let_def setTimeout_def)

lemma players_matchFound_player:
  "map_option players (activeMatches (matchFound_player m p s) k)
     = map_option players (activeMatches s k)"
  by (simp add: matchFound_player_def Let_def join_room_def emit_def split: option.splits)

lemma players_foldl_matchFound_player:
  "map_option players (activeMatches (foldl (\<lambda>st p. matchFound_player m p st) s ps) k)
     = map_option players (activeMatches s k)"
  by (induction ps arbitrary: s) (simp_all add: players_matchFound_player)

lemma activeMatches_GameEngine_createMatch [simp]:
  "activeMatches (GameEngine_createMatch m now s) = activeMatches s"
  by (simp add: GameEngine_createMatch_def startGameLoop_def setInterval_def split: option.splits)

lemma players_handleMatchFound:
  "map_option players (activeMatches (handleMatchFound m now s) (m_id m)) = Some (players m)"
  by (simp add: handleMatchFound_def Let_def setTimeout_def players_foldl_matchFound_player)

lemma findMatch_None:
  assumes "fst (findMatch e uuid now s) = None"
  shows "findMatch e uuid now s = (None, s)"
  using assms by (simp add: findMatch_def Let_def split: option.splits)

lemma findMatch_Some:
  assumes "fst (findMatch e uuid now s) = Some m"
  shows "players m = [e, the (firstOpponent e (queue s))]"
  using assms
  by (auto simp: findMatch_def Let_def MatchmakingService_createMatch_def split: option.splits)

lemma queue_GameEngine_createMatch [simp]:
  "queue (GameEngine_createMatch m now s) = queue s"
  by (simp add: GameEngine_createMatch_def startGameLoop_def setInterval_def split: option.splits)

lemma queue_matchFound_player [simp]: "queue (matchFound_player m p s) = queue s"
  by (simp add: matchFound_player_def Let_def join_room_def emit_def split: option.splits)

lemma queue_foldl_matchFound_player [simp]:
  "queue (foldl (\<lambda>st p. matchFound_player m p st) s ps) = queue s"
  by (induction ps arbitrary: s) simp_all

lemma queue_handleMatchFound: "queue (handleMatchFound m now s) = queue s"
  by (simp add: handleMatchFound_def Let_def setTimeout_def)

lemma queue_findMatch_Some:
  assumes "fst (findMatch e uuid now s) = Some m"
  shows "filter (\<lambda>q. userId q = userId e) (queue (snd (findMatch e uuid now s))) = []"
  using assms
  by (auto simp: findMatch_def Let_def queue_removeFromQueue filter_empty_conv
      split: option.splits)

text \<open>
  C4, amended. A \<open>matchmaking:join\<close> request whose user the database knows is never
  rejected, whether or not the user is a participant of a match in \<open>activeMatches\<close>: no
  error message is emitted. When no opponent is found, the queue afterwards is the queue
  before without any earlier entry of the user, followed by the entry built for this
  request, and the socket is told its position. Otherwise the new entry is paired at once
  into a match that is stored in \<open>activeMatches\<close>, and the queue holds no entry of the
  user.
\<close>

theorem join_ignores_match_membership:
  assumes p: "p = \<lparr>userId = user_id u, socketId = sock_id sock, username = user_username u,
                    displayName = user_display_name u, rating = user_rating u\<rparr>"
    and s': "s' = matchmaking_join sock (Row u) uuid now s"
  shows "filter isError (outbox s') = filter isError (outbox s)
       \<and> (case fst (addToQueue p uuid now s) of
            None \<Rightarrow>
              entryOf p now \<in> set (queue s')
              \<and> queue s' = filter (\<lambda>q. userId q \<noteq> userId p) (queue s) @ [entryOf p now]
              \<and> outbox s' = outbox s @ [(ToSocket (sock_id sock),
                    MatchmakingQueued (length (queue s')) (max 30 (length (queue s') * 15)))]
          | Some m \<Rightarrow>
              entryOf p now \<in> set (players m)
              \<and> map_option players (activeMatches s' (m_id m)) = Some (players m)
              \<and> filter (\<lambda>q. userId q = userId p) (queue s') = [])"
proof -
  define s3 where "s3 = setExpandingSearch (userId p)
          ((removeFromQueue (userId p) s)
             \<lparr>queue := queue (removeFromQueue (userId p) s) @ [entryOf p now]\<rparr>)"
  have add: "addToQueue p uuid now s = findMatch (entryOf p now) uuid now s3"
    by (simp add: addToQueue_eq s3_def)
  have q3: "entryOf p now \<in> set (queue s3)"
    by (simp add: s3_def queue_setExpandingSearch)
  have q3': "queue s3 = filter (\<lambda>q. userId q \<noteq> userId p) (queue s) @ [entryOf p now]"
    by (simp add: s3_def queue_setExpandingSearch queue_removeFromQueue)
  have o3: "outbox s3 = outbox s"
    by (simp add: s3_def)
  obtain found s1 where f: "findMatch (entryOf p now) uuid now s3 = (found, s1)"
    by (cases "findMatch (entryOf p now) uuid now s3") simp
  have o1: "outbox s1 = outbox s"
    using outbox_findMatch [of "entryOf p now" uuid now s3] by (simp add: f o3)
  have j: "s' = (case found of
                Some m \<Rightarrow> handleMatchFound m now s1
              | None \<Rightarrow>
                  emit (ToSocket (sock_id sock))
                    (MatchmakingQueued (length (queue s1)) (max 30 (length (queue s1) * 15))) s1)"
    by (simp add: s' matchmaking_join_def p [symmetric] add f)
  show ?thesis
  proof (cases found)
    case None
    have "s1 = s3"
      using findMatch_None [of "entryOf p now" uuid now s3] by (simp add: f None)
    then show ?thesis
      using q3 q3' by (simp add: j None add f emit_def o3 isError_def)
  next
    case (Some m)
    have "players m = [entryOf p now, the (firstOpponent (entryOf p now) (queue s3))]"
      using findMatch_Some [of "entryOf p now" uuid now s3 m] by (simp add: f Some)
    moreover have "filter (\<lambda>q. userId q = userId p) (queue s1) = []"
      using queue_findMatch_Some [of "entryOf p now" uuid now s3 m] by (simp add: f Some)
    ultimately show ?thesis
      by (simp add: j Some add f errors_handleMatchFound o1 players_handleMatchFound
          queue_handleMatchFound)
  qed
qed

lemma rejoin_found: "fst (addToQueue alice ''m2'' 2000 matchedAB) = None"
  by (simp add: addToQueue_eq findMatch_def queue_setExpandingSearch queue_removeFromQueue
      matchedAB_facts split: option.splits)

lemma rejoinedAB_eq:
  "rejoinedAB = emit (ToSocket ''sA'') (MatchmakingQueued 1 30)
                  (snd (addToQueue alice ''m2'' 2000 matchedAB))"
  and rejoinedAB_queue: "queue rejoinedAB = [entryOf alice 2000]"
proof -
  define s3 where "s3 = setExpandingSearch (userId alice)
          ((removeFromQueue (userId alice) matchedAB)
             \<lparr>queue := queue (removeFromQueue (userId alice) matchedAB) @ [entryOf alice 2000]\<rparr>)"
  have add: "addToQueue alice ''m2'' 2000 matchedAB = findMatch (entryOf alice 2000) ''m2'' 2000 s3"
    by (simp add: addToQueue_eq s3_def)
  have "fst (findMatch (entryOf alice 2000) ''m2'' 2000 s3) = None"
    using rejoin_found by (simp add: add)
  then have fm: "findMatch (entryOf alice 2000) ''m2'' 2000 s3 = (None, s3)"
    by (rule findMatch_None)
  define s1 where "s1 = s3"
  have a: "addToQueue alice ''m2'' 2000 matchedAB = (None, s1)"
    by (simp add: add fm s1_def)
  have s1: "s1 = setExpandingSearch (userId alice)
          ((removeFromQueue (userId alice) matchedAB)
             \<lparr>queue := queue (removeFromQueue (userId alice) matchedAB) @ [entryOf alice 2000]\<rparr>)"
    by (simp add: s1_def s3_def)
  have q1: "queue s1 = [entryOf alice 2000]"
    by (simp add: s1 queue_setExpandingSearch queue_removeFromQueue matchedAB_facts)
  have p: "\<lparr>userId = user_id aliceRow, socketId = sock_id aliceSocket,
            username = user_username aliceRow, displayName = user_display_name aliceRow,
            rating = user_rating aliceRow\<rparr> = alice"
    by (simp add: aliceRow_def aliceSocket_def alice_def)
  show "rejoinedAB = emit (ToSocket ''sA'') (MatchmakingQueued 1 30)
                  (snd (addToQueue alice ''m2'' 2000 matchedAB))"
    by (simp add: rejoinedAB_def matchmaking_join_def p a q1) (simp add: aliceSocket_def)
  show "queue rejoinedAB = [entryOf alice 2000]"
    by (simp add: rejoinedAB_def matchmaking_join_def p a q1 emit_def)
qed

text \<open>
  C4, as stated, fails: alice is a player of the match \<open>m1\<close> of \<open>activeMatches\<close> and
  asks to join the queue. She is not turned away: her entry is the queue afterwards, and
  the one message sent is \<open>matchmaking:queued\<close> with position 1.
\<close>

theorem join_while_in_match_is_queued:
  "activeMatches matchedAB ''m1'' = Some matchAB
   \<and> map userId (players matchAB) = [2, 1]
   \<and> user_id aliceRow = 1
   \<and> queue rejoinedAB = [entryOf alice 2000]
   \<and> outbox rejoinedAB = outbox matchedAB @ [(ToSocket ''sA'', MatchmakingQueued 1 30)]"
proof -
  have "outbox rejoinedAB = outbox matchedAB @ [(ToSocket ''sA'', MatchmakingQueued 1 30)]"
    by (simp add: rejoinedAB_eq emit_def)
  moreover have "map userId (players matchAB) = [2, 1]"
    by (simp add: alice_def bob_def)
  moreover have "user_id aliceRow = 1"
    by (simp add: aliceRow_def)
  moreover have "activeMatches matchedAB ''m1'' = Some matchAB"
    by (simp add: matchedAB_facts)
  ultimately show ?thesis
    using rejoinedAB_queue by (intro conjI)
qed

lemma rejoin_twice_found: "fst (addToQueue alice ''m3'' 3000 rejoinedAB) = None"
  by (simp add: addToQueue_eq findMatch_def queue_setExpandingSearch queue_removeFromQueue
      rejoinedAB_queue split: option.splits)

theorem join_ignores_match_membership_witness:
  "activeMatches rejoinedAB ''m1'' = Some matchAB
   \<and> queue rejoinedAB = [entryOf alice 2000]
   \<and> filter isError (outbox rejoinedTwiceAB) = filter isError (outbox rejoinedAB)
   \<and> entryOf alice 3000 \<in> set (queue rejoinedTwiceAB)
   \<and> queue rejoinedTwiceAB = [entryOf alice 3000]
   \<and> outbox rejoinedTwiceAB = outbox rejoinedAB @
        [(ToSocket ''sA'', MatchmakingQueued (length (queue rejoinedTwiceAB))
                             (max 30 (length (queue rejoinedTwiceAB) * 15)))]"
proof -
  have p: "alice = \<lparr>userId = user_id aliceRow, socketId = sock_id aliceSocket,
            username = user_username aliceRow, displayName = user_display_name aliceRow,
            rating = user_rating aliceRow\<rparr>"
    by (simp add: aliceRow_def aliceSocket_def alice_def)
  have sa: "sock_id aliceSocket = ''sA''" by (simp add: aliceSocket_def)
  have f: "filter (\<lambda>q. userId q \<noteq> userId alice) (queue rejoinedAB) = []"
    by (simp add: rejoinedAB_queue)
  note t = join_ignores_match_membership
          [OF p rejoinedTwiceAB_def, unfolded rejoin_twice_found sa option.case f append_Nil]
  have am: "activeMatches rejoinedAB ''m1'' = Some matchAB"
    by (simp add: rejoinedAB_eq emit_def matchedAB_facts)
  from am rejoinedAB_queue t show ?thesis
    by (intro conjI) (elim conjE, assumption)+
qed

end
